theory Spec2Isabelle
  imports Main
begin

section \<open>Strings of the host language\<close>

text \<open>
  A JavaScript string is modelled as a \<^typ>\<open>string\<close>: a list of code units, here the code
  units 0 to 255 (Latin-1). The helpers of this section are the built-in string operations
  the two source files call.
\<close>

abbreviation (input) NL :: char where "NL \<equiv> CHR 0x0A"
abbreviation (input) CR :: char where "CR \<equiv> CHR 0x0D"
abbreviation (input) TAB :: char where "TAB \<equiv> CHR 0x09"
abbreviation (input) SPC :: char where "SPC \<equiv> CHR 0x20"
abbreviation (input) BSL :: char where "BSL \<equiv> CHR 0x5C"
abbreviation (input) BQ :: char where "BQ \<equiv> CHR 0x60"

text \<open>Line terminators of the regular-expression engine (\<open>^\<close>, \<open>$\<close> and \<open>.\<close>).\<close>

definition isLineTerminator :: "char \<Rightarrow> bool" where
  "isLineTerminator c \<longleftrightarrow> c = NL \<or> c = CR"

text \<open>White space as \<open>String.prototype.trim\<close> and the class \<open>\s\<close> see it.\<close>

definition isWhiteSpace :: "char \<Rightarrow> bool" where
  "isWhiteSpace c \<longleftrightarrow>
     c = TAB \<or> c = CHR 0x0B \<or> c = CHR 0x0C \<or> c = SPC \<or> c = CHR 0xA0 \<or> isLineTerminator c"

definition isDigit :: "char \<Rightarrow> bool" where
  "isDigit c \<longleftrightarrow> (let n = (of_char c :: nat) in 48 \<le> n \<and> n \<le> 57)"

text \<open>The class \<open>\w\<close>: ASCII letters, digits and the underscore.\<close>

definition isWordChar :: "char \<Rightarrow> bool" where
  "isWordChar c \<longleftrightarrow>
     (let n = (of_char c :: nat)
      in (65 \<le> n \<and> n \<le> 90) \<or> (97 \<le> n \<and> n \<le> 122) \<or> (48 \<le> n \<and> n \<le> 57) \<or> n = 95)"

definition trim :: "string \<Rightarrow> string" where
  "trim s = rev (dropWhile isWhiteSpace (rev (dropWhile isWhiteSpace s)))"

text \<open>\<open>String.prototype.toLowerCase\<close> on the code units 0 to 255.\<close>

definition lowerChar :: "char \<Rightarrow> char" where
  "lowerChar c =
     (let n = (of_char c :: nat)
      in if (65 \<le> n \<and> n \<le> 90) \<or> (192 \<le> n \<and> n \<le> 222 \<and> n \<noteq> 215)
         then char_of (n + 32) else c)"

definition toLowerCase :: "string \<Rightarrow> string" where
  "toLowerCase s = map lowerChar s"

text \<open>\<open>Array.prototype.join\<close>.\<close>

fun join :: "string \<Rightarrow> string list \<Rightarrow> string" where
  "join sep [] = []"
| "join sep [x] = x"
| "join sep (x # y # ys) = x @ sep @ join sep (y # ys)"

text \<open>\<open>s.split('\n')\<close>: the empty string gives one empty piece.\<close>

fun splitLines :: "string \<Rightarrow> string list" where
  "splitLines [] = [[]]"
| "splitLines (c # cs) =
     (if c = NL then [] # splitLines cs
      else (case splitLines cs of [] \<Rightarrow> [[c]] | l # ls \<Rightarrow> (c # l) # ls))"

text \<open>Decimal rendering of a number, as a template literal prints it.\<close>

fun decimal :: "nat \<Rightarrow> string" where
  "decimal n = (if n < 10 then [char_of (48 + n)] else decimal (n div 10) @ [char_of (48 + n mod 10)])"

declare decimal.simps [simp del]

subsection \<open>Global regular-expression replacement\<close>

text \<open>
  \<open>s.replace(/re/g, f)\<close> scans the string from the left. At each position the expression
  is tried; a match is replaced and the scan goes on after it, otherwise the character is
  copied. A compiled expression is a function from the previous character (none at the
  start) and the rest of the string to the length of the match and its replacement.
\<close>

type_synonym rewrite = "char option \<Rightarrow> string \<Rightarrow> (nat \<times> string) option"

fun replaceAll :: "rewrite \<Rightarrow> char option \<Rightarrow> string \<Rightarrow> string" where
  "replaceAll m prev [] = (case m prev [] of None \<Rightarrow> [] | Some (n, out) \<Rightarrow> out)"
| "replaceAll m prev (c # cs) =
     (case m prev (c # cs) of
        None \<Rightarrow> c # replaceAll m (Some c) cs
      | Some (n, out) \<Rightarrow>
          (if n = 0 then out @ c # replaceAll m (Some c) cs
           else out @ replaceAll m (Some (last (take n (c # cs)))) (drop (n - 1) cs)))"

definition atLineStart :: "char option \<Rightarrow> bool" where
  "atLineStart prev = (case prev of None \<Rightarrow> True | Some c \<Rightarrow> isLineTerminator c)"

definition atLineEnd :: "string \<Rightarrow> bool" where
  "atLineEnd s = (case s of [] \<Rightarrow> True | c # _ \<Rightarrow> isLineTerminator c)"


section \<open>The post-processing normalizer\<close>

text \<open>
  \<open>MarkdownConverter.postProcess\<close> (markdown-converter.js, lines 327 to 354) applies six
  global replacements and a final \<open>trim\<close>. Each regular expression is compiled by hand
  into a \<^typ>\<open>rewrite\<close>.
\<close>

text \<open>\<open>/\n{3,}/g\<close> replaced by two newlines.\<close>

definition reNewlines :: rewrite where
  "reNewlines prev s =
     (let n = length (takeWhile (\<lambda>c. c = NL) s)
      in if 3 \<le> n then Some (n, [NL, NL]) else None)"

text \<open>
  \<open>/^[ \t]+|[ \t]+$/gm\<close> replaced by the empty string: a greedy run of blanks that
  starts a line, or one that ends a line.
\<close>

definition isBlank :: "char \<Rightarrow> bool" where
  "isBlank c \<longleftrightarrow> c = SPC \<or> c = TAB"

definition reEdgeBlanks :: rewrite where
  "reEdgeBlanks prev s =
     (let n = length (takeWhile isBlank s)
      in if 0 < n \<and> (atLineStart prev \<or> atLineEnd (drop n s)) then Some (n, []) else None)"

text \<open>
  \<open>/^([-*+]|\d+\.)\s/gm\<close> with a callback that returns the match: a list marker at the
  start of a line, followed by one white-space character, is replaced by itself.
\<close>

definition reListMarker :: rewrite where
  "reListMarker prev s =
     (if \<not> atLineStart prev then None
      else (case s of
              c # d # _ \<Rightarrow>
                if (c = CHR ''-'' \<or> c = CHR ''*'' \<or> c = CHR ''+'') \<and> isWhiteSpace d
                then Some (2, [c, d])
                else (let n = length (takeWhile isDigit s)
                      in (case drop n s of
                            p # w # _ \<Rightarrow>
                              if 0 < n \<and> p = CHR ''.'' \<and> isWhiteSpace w
                              then Some (n + 2, take (n + 2) s) else None
                          | _ \<Rightarrow> None))
            | _ \<Rightarrow> None))"

text \<open>
  \<open>/^(#{1,6})\s(.+)$/gm\<close> replaced by the hashes, one space and the trimmed title. The
  run of hashes must be one to six long (a seventh hash is not white space), the
  character after it is any white space (a line terminator too), and the title is the
  rest of that line, not empty.
\<close>

definition reHeading :: rewrite where
  "reHeading prev s =
     (let h = length (takeWhile (\<lambda>c. c = CHR ''#'') s)
      in if \<not> atLineStart prev \<or> h < 1 \<or> 6 < h then None
         else (case drop h s of
                 [] \<Rightarrow> None
               | w # rest \<Rightarrow>
                   (let title = takeWhile (\<lambda>c. \<not> isLineTerminator c) rest
                    in if isWhiteSpace w \<and> title \<noteq> []
                       then Some (h + 1 + length title, take h s @ [SPC] @ trim title)
                       else None)))"

text \<open>
  \<open>/^>\s*$/gm\<close> replaced by \<open>>\<close>. The greedy \<open>\s*\<close> takes the whole run of white space
  after the mark; when the run does not reach the end of the string it gives characters
  back until the next one is a line terminator.
\<close>

fun lastTerminator :: "string \<Rightarrow> nat option" where
  "lastTerminator [] = None"
| "lastTerminator (c # cs) =
     (case lastTerminator cs of
        Some k \<Rightarrow> Some (Suc k)
      | None \<Rightarrow> if isLineTerminator c then Some 0 else None)"

definition reBareQuote :: rewrite where
  "reBareQuote prev s =
     (case s of
        [] \<Rightarrow> None
      | c # rest \<Rightarrow>
          if \<not> atLineStart prev \<or> c \<noteq> CHR ''>'' then None
          else (let w = takeWhile isWhiteSpace rest
                in if drop (length w) rest = [] then Some (1 + length w, ''>'')
                   else (case lastTerminator w of
                           Some k \<Rightarrow> Some (1 + k, ''>'')
                         | None \<Rightarrow> None)))"

text \<open>
  \<open>/(^|\n)(```[\s\S]*?```)/g\<close> replaced by \<open>\n\n$2\n\n\<close>. Without the \<open>m\<close> flag \<open>^\<close> is
  the start of the string only. The lazy body ends at the first closing fence.
\<close>

definition fence :: string where
  "fence = [BQ, BQ, BQ]"

fun findFence :: "string \<Rightarrow> nat option" where
  "findFence [] = None"
| "findFence (c # cs) =
     (if take 3 (c # cs) = fence then Some 0
      else (case findFence cs of Some k \<Rightarrow> Some (Suc k) | None \<Rightarrow> None))"

definition fencedBlock :: "string \<Rightarrow> nat option" where
  "fencedBlock s =
     (if take 3 s = fence
      then (case findFence (drop 3 s) of Some k \<Rightarrow> Some (k + 6) | None \<Rightarrow> None)
      else None)"

definition reFence :: rewrite where
  "reFence prev s =
     (case (if prev = None then fencedBlock s else None) of
        Some n \<Rightarrow> Some (n, [NL, NL] @ take n s @ [NL, NL])
      | None \<Rightarrow>
          (case s of
             c # rest \<Rightarrow>
               if c = NL
               then (case fencedBlock rest of
                       Some n \<Rightarrow> Some (1 + n, [NL, NL] @ take n rest @ [NL, NL])
                     | None \<Rightarrow> None)
               else None
           | [] \<Rightarrow> None))"

definition postProcess :: "string \<Rightarrow> string" where
  "postProcess markdown =
     (let markdown = replaceAll reNewlines None markdown;
          markdown = replaceAll reEdgeBlanks None markdown;
          markdown = replaceAll reListMarker None markdown;
          markdown = replaceAll reHeading None markdown;
          markdown = replaceAll reBareQuote None markdown;
          markdown = replaceAll reFence None markdown
      in trim markdown)"


section \<open>The document tree\<close>

text \<open>
  A DOM node is an element (node name, attributes, child nodes), a text node or any
  other node (a comment). Element names are stored as \<open>nodeName\<close> gives them, in upper
  case for HTML elements. A node's parent link is passed along with the node wherever the
  source follows it.
\<close>

datatype node =
    Element string "(string \<times> string) list" "node list"
  | Text string
  | Comment string

fun nodeName :: "node \<Rightarrow> string" where
  "nodeName (Element nm as kids) = nm"
| "nodeName (Text t) = ''#text''"
| "nodeName (Comment c) = ''#comment''"

fun childNodes :: "node \<Rightarrow> node list" where
  "childNodes (Element nm as kids) = kids"
| "childNodes (Text t) = []"
| "childNodes (Comment c) = []"

fun isElement :: "node \<Rightarrow> bool" where
  "isElement (Element nm as kids) = True"
| "isElement (Text t) = False"
| "isElement (Comment c) = False"

text \<open>\<open>node.children\<close>: the child nodes that are elements.\<close>

definition children :: "node \<Rightarrow> node list" where
  "children n = filter isElement (childNodes n)"

text \<open>\<open>getAttribute\<close> returns \<open>null\<close> (here \<open>None\<close>) for a missing attribute.\<close>

fun getAttribute :: "node \<Rightarrow> string \<Rightarrow> string option" where
  "getAttribute (Element nm as kids) a = map_of as a"
| "getAttribute (Text t) a = None"
| "getAttribute (Comment c) a = None"

text \<open>
  \<open>textContent\<close>: the data of a text node or comment; for an element the data of all
  text nodes below it, in document order (comments are left out).
\<close>

fun textBelow :: "node \<Rightarrow> string" where
  "textBelow (Element nm as kids) = concat (map textBelow kids)"
| "textBelow (Text t) = t"
| "textBelow (Comment c) = []"

fun textContent :: "node \<Rightarrow> string" where
  "textContent (Comment c) = c"
| "textContent n = textBelow n"

text \<open>The nodes below a node, in document order.\<close>

fun descendants :: "node \<Rightarrow> node list" where
  "descendants (Element nm as kids) = concat (map (\<lambda>k. k # descendants k) kids)"
| "descendants (Text t) = []"
| "descendants (Comment c) = []"

text \<open>
  A selector that is a list of type selectors (\<open>'li'\<close>, \<open>'td, th'\<close>, \<open>'ul, ol'\<close>) matches an
  element whose name is one of them, case-insensitively.
\<close>

definition matchesSelector :: "string list \<Rightarrow> node \<Rightarrow> bool" where
  "matchesSelector tags n \<longleftrightarrow> isElement n \<and> toLowerCase (nodeName n) \<in> set tags"

definition querySelectorAll :: "node \<Rightarrow> string list \<Rightarrow> node list" where
  "querySelectorAll n tags = filter (matchesSelector tags) (descendants n)"

definition querySelector :: "node \<Rightarrow> string list \<Rightarrow> node option" where
  "querySelector n tags = (case querySelectorAll n tags of [] \<Rightarrow> None | x # _ \<Rightarrow> Some x)"

text \<open>
  \<open>root.querySelectorAll(sel).forEach(e => e.remove())\<close>: the tree below the root without
  the matching elements (and what is below them).
\<close>

fun removeAll_below :: "string list \<Rightarrow> node list \<Rightarrow> node list" where
  "removeAll_below tags [] = []"
| "removeAll_below tags (Element nm as kids # rest) =
     (if matchesSelector tags (Element nm as kids) then removeAll_below tags rest
      else Element nm as (removeAll_below tags kids) # removeAll_below tags rest)"
| "removeAll_below tags (n # rest) = n # removeAll_below tags rest"

text \<open>
  \<open>new DOMParser().parseFromString(html, 'text/html').body\<close>, for \<open>html\<close> the
  serialization (\<open>innerHTML\<close>) of a list of nodes: serializing and parsing again is taken
  to give the same nodes back, under a fresh \<open>BODY\<close> element whose parent is the \<open>HTML\<close>
  element of the new document. This is an assumption on the host's parser, which holds for
  the trees used below; it does not hold for every tree (the parser drops a newline that
  starts a \<open>pre\<close> element, and moves a leading \<open>title\<close> out of the body).
\<close>

definition bodyOf :: "node list \<Rightarrow> node" where
  "bodyOf fragment = Element ''BODY'' [] fragment"

definition htmlOf :: "node list \<Rightarrow> node" where
  "htmlOf fragment = Element ''HTML'' [] [Element ''HEAD'' [] [], bodyOf fragment]"

section \<open>The rule registry and the tree walker\<close>

text \<open>
  \<open>TurndownService\<close> (part_001). A filter is a tag name, an array of filters, a
  predicate on the node, or any other value (which matches nothing). A replacement is a
  closure from the children's output and the node to a string.
\<close>

datatype filter_spec =
    FString string
  | FArray "filter_spec list"
  | FFunction "node option \<Rightarrow> node \<Rightarrow> bool"
  | FOther

record rule_spec =
  rule_filter :: filter_spec
  replacement :: "string \<Rightarrow> node option \<Rightarrow> node \<Rightarrow> string"

record rule = rule_spec +
  name :: string

record 'a option_set =
  headingStyle :: 'a
  codeBlockStyle :: 'a
  emDelimiter :: 'a
  strongDelimiter :: 'a
  linkStyle :: 'a
  br :: 'a
  hr :: 'a

record service =
  options :: "string option_set"
  rules :: "rule list"

text \<open>\<open>addRule(name, rule)\<close>: \<open>this.rules.unshift({ name, ...rule })\<close>.\<close>

definition addRule :: "string \<Rightarrow> rule_spec \<Rightarrow> service \<Rightarrow> service" where
  "addRule nm r this =
     this\<lparr>rules := \<lparr>rule_filter = rule_filter r, replacement = replacement r, name = nm\<rparr> # rules this\<rparr>"

fun matchesFilter :: "node option \<Rightarrow> node \<Rightarrow> filter_spec \<Rightarrow> bool"
  and matchesSome :: "node option \<Rightarrow> node \<Rightarrow> filter_spec list \<Rightarrow> bool" where
  "matchesFilter parent n (FString s) = (toLowerCase (nodeName n) = toLowerCase s)"
| "matchesFilter parent n (FArray fs) = matchesSome parent n fs"
| "matchesFilter parent n (FFunction f) = f parent n"
| "matchesFilter parent n FOther = False"
| "matchesSome parent n [] = False"
| "matchesSome parent n (f # fs) = (matchesFilter parent n f \<or> matchesSome parent n fs)"

text \<open>The loop of \<open>findMatchingRule\<close> over \<open>this.rules\<close>.\<close>

fun findIn :: "rule list \<Rightarrow> node option \<Rightarrow> node \<Rightarrow> rule option" where
  "findIn [] parent n = None"
| "findIn (r # rs) parent n =
     (if matchesFilter parent n (rule_filter r) then Some r else findIn rs parent n)"

definition findMatchingRule :: "service \<Rightarrow> node option \<Rightarrow> node \<Rightarrow> rule option" where
  "findMatchingRule this parent n = findIn (rules this) parent n"

text \<open>
  \<open>processNode\<close> and the loop of \<open>processChildren\<close>, which appends each child's output to
  \<open>result\<close>.
\<close>

fun processNode :: "service \<Rightarrow> node option \<Rightarrow> node \<Rightarrow> string"
  and childrenLoop :: "service \<Rightarrow> node \<Rightarrow> string \<Rightarrow> node list \<Rightarrow> string" where
  "processNode this parent (Text t) = t"
| "processNode this parent (Comment c) = []"
| "processNode this parent (Element nm as kids) =
     (case findMatchingRule this parent (Element nm as kids) of
        Some r \<Rightarrow>
          (let content = childrenLoop this (Element nm as kids) [] kids
           in replacement r content parent (Element nm as kids))
      | None \<Rightarrow> childrenLoop this (Element nm as kids) [] kids)"
| "childrenLoop this n result [] = result"
| "childrenLoop this n result (child # rest) =
     childrenLoop this n (result @ processNode this (Some n) child) rest"

definition processChildren :: "service \<Rightarrow> node \<Rightarrow> string" where
  "processChildren this n = childrenLoop this n [] (childNodes n)"

text \<open>
  A closure of a rule may call back into the service that holds it (\<open>this.processNode\<close>,
  \<open>this.converter.turndown\<close>). The walker it calls is a parameter of the closure's model.
\<close>

type_synonym walker = "node option \<Rightarrow> node \<Rightarrow> string"

text \<open>
  \<open>turndown(input)\<close> for a string input, given as the nodes it parses to: the body is
  walked and the result trimmed. (The converter never passes a node.)
\<close>

definition turndownWith :: "walker \<Rightarrow> node list \<Rightarrow> string" where
  "turndownWith self fragment = trim (self (Some (htmlOf fragment)) (bodyOf fragment))"

definition turndown :: "service \<Rightarrow> node list \<Rightarrow> string" where
  "turndown this fragment = turndownWith (processNode this) fragment"

subsection \<open>The constructor and the default rules\<close>

datatype js_error = Error string | ConfigurationError string

text \<open>\<open>v || d\<close> for an option that is a string or missing: a missing or empty value is falsy.\<close>

definition orElse :: "string option \<Rightarrow> string \<Rightarrow> string" where
  "orElse v d = (case v of None \<Rightarrow> d | Some s \<Rightarrow> if s = [] then d else s)"

text \<open>\<open>parseInt(node.nodeName.charAt(1))\<close>, with \<open>NaN\<close> read as 0 as \<open>repeat\<close> reads it.\<close>

definition headingLevel :: "node \<Rightarrow> nat" where
  "headingLevel n =
     (case nodeName n of
        _ # c # _ \<Rightarrow> if isDigit c then of_char c - 48 else 0
      | _ \<Rightarrow> 0)"

definition titlePart :: "string option \<Rightarrow> string" where
  "titlePart title = (if orElse title [] \<noteq> [] then '' \"'' @ orElse title [] @ ''\"'' else [])"

definition paragraphRule :: rule_spec where
  "paragraphRule = \<lparr>rule_filter = FString ''p'',
     replacement = (\<lambda>content parent n. [NL, NL] @ content @ [NL, NL])\<rparr>"

definition headingRule :: rule_spec where
  "headingRule = \<lparr>rule_filter =
       FArray [FString ''h1'', FString ''h2'', FString ''h3'', FString ''h4'', FString ''h5'', FString ''h6''],
     replacement = (\<lambda>content parent n.
       (let level = headingLevel n; prefix = replicate level (CHR ''#'')
        in [NL, NL] @ prefix @ '' '' @ content @ [NL, NL]))\<rparr>"

definition strongRule :: "service \<Rightarrow> rule_spec" where
  "strongRule this = \<lparr>rule_filter = FArray [FString ''strong'', FString ''b''],
     replacement = (\<lambda>content parent n.
       if trim content \<noteq> []
       then strongDelimiter (options this) @ content @ strongDelimiter (options this) else [])\<rparr>"

definition emphasisRule :: "service \<Rightarrow> rule_spec" where
  "emphasisRule this = \<lparr>rule_filter = FArray [FString ''em'', FString ''i''],
     replacement = (\<lambda>content parent n.
       if trim content \<noteq> []
       then emDelimiter (options this) @ content @ emDelimiter (options this) else [])\<rparr>"

definition linkRule :: rule_spec where
  "linkRule = \<lparr>rule_filter = FString ''a'',
     replacement = (\<lambda>content parent n.
       (let href = getAttribute n ''href''; title = getAttribute n ''title''
        in if orElse href [] = [] then content
           else ''['' @ content @ '']('' @ orElse href [] @ titlePart title @ '')''))\<rparr>"

definition imageRule :: rule_spec where
  "imageRule = \<lparr>rule_filter = FString ''img'',
     replacement = (\<lambda>content parent n.
       (let src = getAttribute n ''src''; alt = orElse (getAttribute n ''alt'') [];
            title = getAttribute n ''title''
        in if orElse src [] = [] then ''['' @ alt @ '']''
           else ''!['' @ alt @ '']('' @ orElse src [] @ titlePart title @ '')''))\<rparr>"

definition codeRule :: rule_spec where
  "codeRule = \<lparr>rule_filter = FString ''code'',
     replacement = (\<lambda>content parent n.
       if (case parent of Some p \<Rightarrow> nodeName p = ''PRE'' | None \<Rightarrow> False) then content
       else if trim content \<noteq> [] then [BQ] @ content @ [BQ] else [])\<rparr>"

definition codeBlockRule :: rule_spec where
  "codeBlockRule = \<lparr>rule_filter = FString ''pre'',
     replacement = (\<lambda>content parent n.
       (let text = (case querySelector n [''code''] of
                      Some codeNode \<Rightarrow> textContent codeNode
                    | None \<Rightarrow> textContent n)
        in [NL, NL] @ fence @ [NL] @ text @ [NL] @ fence @ [NL, NL]))\<rparr>"

definition lineBreakRule :: "service \<Rightarrow> rule_spec" where
  "lineBreakRule this = \<lparr>rule_filter = FString ''br'',
     replacement = (\<lambda>content parent n. br (options this))\<rparr>"

definition horizontalRuleRule :: "service \<Rightarrow> rule_spec" where
  "horizontalRuleRule this = \<lparr>rule_filter = FString ''hr'',
     replacement = (\<lambda>content parent n. [NL, NL] @ hr (options this) @ [NL, NL])\<rparr>"

definition blockquoteRule :: rule_spec where
  "blockquoteRule = \<lparr>rule_filter = FString ''blockquote'',
     replacement = (\<lambda>content parent n.
       (let lines = splitLines (trim content);
            quotedLines = map (\<lambda>line. ''> '' @ trim line) lines
        in [NL, NL] @ join [NL] quotedLines @ [NL, NL]))\<rparr>"

text \<open>
  The default list rule: the \<open>forEach\<close> over the direct \<open>LI\<close> children, with the item's
  index and the string \<open>result\<close> it appends to.
\<close>

fun listItems :: "walker \<Rightarrow> node \<Rightarrow> bool \<Rightarrow> nat \<Rightarrow> string \<Rightarrow> node list \<Rightarrow> string" where
  "listItems self n isOrdered index result [] = result"
| "listItems self n isOrdered index result (item # rest) =
     (let text = trim (self (Some n) item);
          result = (if text \<noteq> []
                    then (let prefix = (if isOrdered then decimal (index + 1) @ ''. '' else ''- '')
                          in result @ prefix @ text @ [NL])
                    else result)
      in listItems self n isOrdered (index + 1) result rest)"

definition listRule :: "walker \<Rightarrow> rule_spec" where
  "listRule self = \<lparr>rule_filter = FArray [FString ''ul'', FString ''ol''],
     replacement = (\<lambda>content parent n.
       (let isOrdered = (nodeName n = ''OL'');
            items = filter (\<lambda>child. nodeName child = ''LI'') (children n);
            result = listItems self n isOrdered 0 [NL, NL] items
        in result @ [NL]))\<rparr>"

definition listItemRule :: rule_spec where
  "listItemRule = \<lparr>rule_filter = FString ''li'',
     replacement = (\<lambda>content parent n. trim content)\<rparr>"

text \<open>
  \<open>initDefaultRules\<close>: thirteen calls of \<open>addRule\<close>, in this order. \<open>self\<close> is the
  \<open>processNode\<close> of the service under construction, which the list rule calls.
\<close>

definition initDefaultRules :: "walker \<Rightarrow> service \<Rightarrow> service" where
  "initDefaultRules self this =
     fold (\<lambda>(nm, r). addRule nm r)
       [(''paragraph'', paragraphRule),
        (''heading'', headingRule),
        (''strong'', strongRule this),
        (''emphasis'', emphasisRule this),
        (''link'', linkRule),
        (''image'', imageRule),
        (''code'', codeRule),
        (''codeBlock'', codeBlockRule),
        (''lineBreak'', lineBreakRule this),
        (''horizontalRule'', horizontalRuleRule this),
        (''blockquote'', blockquoteRule),
        (''list'', listRule self),
        (''listItem'', listItemRule)]
       this"

text \<open>
  The constructor fills in the options and the default rules. It has no \<open>throw\<close>: the
  result is always a service.
\<close>

definition TurndownService :: "walker \<Rightarrow> string option option_set \<Rightarrow> js_error + service" where
  "TurndownService self opts =
     (let this = \<lparr>options = \<lparr>headingStyle = orElse (headingStyle opts) ''atx'',
                               codeBlockStyle = orElse (codeBlockStyle opts) ''fenced'',
                               emDelimiter = orElse (emDelimiter opts) ''_'',
                               strongDelimiter = orElse (strongDelimiter opts) ''**'',
                               linkStyle = orElse (linkStyle opts) ''inlineLink'',
                               br = orElse (br opts) [NL],
                               hr = orElse (hr opts) ''---''\<rparr>,
                  rules = []\<rparr>
      in Inr (initDefaultRules self this))"


section \<open>The Markdown converter\<close>

text \<open>
  \<open>MarkdownConverter\<close> (markdown-converter.js). Its two literals in CJK script lie outside
  the modelled code units; they are kept as named constants holding their UTF-8 bytes.
\<close>

definition imagePlaceholder :: string where
  "imagePlaceholder = [CHR 0xE5, CHR 0x9B, CHR 0xBE, CHR 0xE7, CHR 0x89, CHR 0x87]"

definition failurePrefix :: string where
  "failurePrefix = [CHR 0xE8, CHR 0xBD, CHR 0xAC, CHR 0xE6, CHR 0x8D, CHR 0xA2,
                    CHR 0xE5, CHR 0xA4, CHR 0xB1, CHR 0xE8, CHR 0xB4, CHR 0xA5] @ '': ''"

subsection \<open>Tables\<close>

text \<open>
  The text of a cell, \<open>cell.textContent || cell.innerText || ''\<close>, is its text content: in
  a document that is not rendered \<open>innerText\<close> is the text content too. It is trimmed and
  its pipes are escaped by \<open>replace(/\|/g, '\\|')\<close>.
\<close>

definition escapePipes :: "string \<Rightarrow> string" where
  "escapePipes s = concat (map (\<lambda>c. if c = CHR ''|'' then [BSL, CHR ''|''] else [c]) s)"

definition cellContent :: "node \<Rightarrow> string" where
  "cellContent cell = (let content = textContent cell in escapePipes (trim content))"

text \<open>The \<open>forEach\<close> over the rows, with the row index and the string \<open>markdown\<close>.\<close>

fun tableRows :: "bool \<Rightarrow> nat \<Rightarrow> string \<Rightarrow> node list \<Rightarrow> string" where
  "tableRows hasHeader rowIndex markdown [] = markdown"
| "tableRows hasHeader rowIndex markdown (row # rest) =
     (let cells = querySelectorAll row [''td'', ''th''];
          cellContents = map cellContent cells;
          markdown = markdown @ ''| '' @ join '' | '' cellContents @ '' |'' @ [NL];
          markdown = (if rowIndex = 0 \<and> hasHeader
                      then (let separator = join '' | '' (map (\<lambda>_. ''---'') cellContents)
                            in markdown @ ''| '' @ separator @ '' |'' @ [NL])
                      else markdown)
      in tableRows hasHeader (rowIndex + 1) markdown rest)"

definition convertTable :: "node \<Rightarrow> string" where
  "convertTable tableNode =
     (case querySelectorAll tableNode [''tr''] of
        [] \<Rightarrow> []
      | firstRow # rest \<Rightarrow>
          (let hasHeader = (querySelector tableNode [''thead''] \<noteq> None
                            \<or> querySelector firstRow [''th''] \<noteq> None)
           in tableRows hasHeader 0 [NL, NL] (firstRow # rest) @ [NL]))"

subsection \<open>Lists\<close>

text \<open>
  \<open>getTextContent\<close>: a deep copy of the element is put into a fresh \<open>div\<close>, every \<open>ul\<close> and
  \<open>ol\<close> below the \<open>div\<close> is removed, and the \<open>div\<close>'s \<open>innerHTML\<close> goes through the
  converter's \<open>turndown\<close>.
\<close>

definition getTextContent :: "walker \<Rightarrow> node \<Rightarrow> string" where
  "getTextContent self element =
     (let tempDiv = Element ''DIV'' [] [element];
          tempDiv = Element ''DIV'' [] (removeAll_below [''ul'', ''ol''] (childNodes tempDiv))
      in turndownWith self (childNodes tempDiv))"

text \<open>\<open>lines.map((line, lineIndex) => ...)\<close>: a map that sees the index.\<close>

fun mapIndexed :: "('a \<Rightarrow> nat \<Rightarrow> 'b) \<Rightarrow> nat \<Rightarrow> 'a list \<Rightarrow> 'b list" where
  "mapIndexed f i [] = []"
| "mapIndexed f i (x # xs) = f x i # mapIndexed f (i + 1) xs"

fun convertItems :: "walker \<Rightarrow> bool \<Rightarrow> nat \<Rightarrow> string \<Rightarrow> node list \<Rightarrow> string" where
  "convertItems self isOrdered index markdown [] = markdown"
| "convertItems self isOrdered index markdown (item # rest) =
     (let content = trim (getTextContent self item);
          markdown =
            (if content \<noteq> []
             then (let prefix = (if isOrdered then decimal (index + 1) @ ''. '' else ''- '');
                       lines = splitLines content;
                       formattedLines =
                         mapIndexed (\<lambda>line lineIndex.
                             if lineIndex = 0 then prefix @ line
                             else (let indent = (if isOrdered then ''   '' else ''  '')
                                   in indent @ line)) 0 lines
                   in markdown @ join [NL] formattedLines @ [NL])
             else markdown)
      in convertItems self isOrdered (index + 1) markdown rest)"

definition convertList :: "walker \<Rightarrow> node \<Rightarrow> string" where
  "convertList self listNode =
     (let isOrdered = (toLowerCase (nodeName listNode) = ''ol'');
          items = querySelectorAll listNode [''li'']
      in if items = [] then []
         else convertItems self isOrdered 0 [NL, NL] items @ [NL])"

subsection \<open>Code blocks\<close>

text \<open>
  \<open>className.match(/language-(\w+)/)\<close>: the first place where \<open>language-\<close> is followed by
  a word character; the group is the longest run of word characters there. The content
  of the block, \<open>codeNode.textContent || codeNode.innerText || ''\<close>, is the text content.
\<close>

fun languageMatch :: "string \<Rightarrow> string option" where
  "languageMatch [] = None"
| "languageMatch (c # cs) =
     (let w = takeWhile isWordChar (drop 9 (c # cs))
      in if take 9 (c # cs) = ''language-'' \<and> w \<noteq> [] then Some w else languageMatch cs)"

definition convertCodeBlock :: "node \<Rightarrow> string" where
  "convertCodeBlock preNode =
     (case querySelector preNode [''code''] of
        None \<Rightarrow> []
      | Some codeNode \<Rightarrow>
          (let content = textContent codeNode;
               className = orElse (getAttribute codeNode ''class'') [];
               language = (case languageMatch className of Some l \<Rightarrow> l | None \<Rightarrow> [])
           in [NL, NL] @ fence @ language @ [NL] @ content @ [NL] @ fence @ [NL, NL]))"

subsection \<open>The custom rules\<close>

definition tablesRule :: rule_spec where
  "tablesRule = \<lparr>rule_filter = FString ''table'',
     replacement = (\<lambda>content parent n. convertTable n)\<rparr>"

definition improvedListsRule :: "walker \<Rightarrow> rule_spec" where
  "improvedListsRule self = \<lparr>rule_filter = FArray [FString ''ul'', FString ''ol''],
     replacement = (\<lambda>content parent n. convertList self n)\<rparr>"

definition codeBlocksRule :: rule_spec where
  "codeBlocksRule = \<lparr>rule_filter =
       FFunction (\<lambda>parent n. nodeName n = ''PRE'' \<and> querySelector n [''code''] \<noteq> None),
     replacement = (\<lambda>content parent n. convertCodeBlock n)\<rparr>"

definition imagesRule :: rule_spec where
  "imagesRule = \<lparr>rule_filter = FString ''img'',
     replacement = (\<lambda>content parent n.
       (let alt = orElse (getAttribute n ''alt'') imagePlaceholder;
            src = orElse (getAttribute n ''src'') [];
            title = orElse (getAttribute n ''title'') []
        in if src = [] then ''['' @ alt @ '']''
           else ''!['' @ alt @ '']('' @ src @ titlePart (Some title) @ '')''))\<rparr>"

definition strikethroughRule :: rule_spec where
  "strikethroughRule = \<lparr>rule_filter = FArray [FString ''del'', FString ''s'', FString ''strike''],
     replacement = (\<lambda>content parent n. if trim content \<noteq> [] then ''~~'' @ content @ ''~~'' else [])\<rparr>"

definition underlineRule :: rule_spec where
  "underlineRule = \<lparr>rule_filter = FString ''u'',
     replacement = (\<lambda>content parent n. if trim content \<noteq> [] then ''<u>'' @ content @ ''</u>'' else [])\<rparr>"

definition blockquotesRule :: rule_spec where
  "blockquotesRule = \<lparr>rule_filter = FString ''blockquote'',
     replacement = (\<lambda>content parent n.
       (let lines = splitLines (trim content);
            quotedLines = map (\<lambda>line. let trimmed = trim line
                                       in if trimmed \<noteq> [] then ''> '' @ trimmed else ''>'') lines
        in [NL, NL] @ join [NL] quotedLines @ [NL, NL]))\<rparr>"

text \<open>
  \<open>initCustomRules\<close>: seven calls of \<open>addRule\<close> on the converter, in this order. \<open>self\<close> is
  the \<open>processNode\<close> of the converter, which \<open>convertList\<close> reaches through \<open>turndown\<close>.
\<close>

definition initCustomRules :: "walker \<Rightarrow> service \<Rightarrow> service" where
  "initCustomRules self converter =
     fold (\<lambda>(nm, r). addRule nm r)
       [(''tables'', tablesRule),
        (''improvedLists'', improvedListsRule self),
        (''codeBlocks'', codeBlocksRule),
        (''images'', imagesRule),
        (''strikethrough'', strikethroughRule),
        (''underline'', underlineRule),
        (''blockquotes'', blockquotesRule)]
       converter"

text \<open>\<open>init\<close>: the converter is constructed with fixed options, then the custom rules are added.\<close>

definition init :: "walker \<Rightarrow> js_error + service" where
  "init self =
     (case TurndownService self
             \<lparr>headingStyle = Some ''atx'', codeBlockStyle = Some ''fenced'',
              emDelimiter = Some ''_'', strongDelimiter = Some ''**'',
              linkStyle = Some ''inlineLink'', br = Some [NL], hr = Some ''---''\<rparr> of
        Inl e \<Rightarrow> Inl e
      | Inr converter \<Rightarrow> Inr (initCustomRules self converter))"

text \<open>
  The closures of the two list rules call the walker of the converter that holds them.
  A walk of a tree without \<open>ul\<close> and \<open>ol\<close> elements never runs these closures, and
  \<open>getTextContent\<close> hands only such trees to the walker. So the converter is built in two
  steps: \<open>innerConverter\<close> walks the stripped items, and the closures of \<open>theConverter\<close>
  call it. Lemma \<open>theConverter_closed\<close> shows that \<open>theConverter\<close> walks every tree as the
  converter whose closures call \<open>theConverter\<close> itself.
\<close>

definition innerConverter :: service where
  "innerConverter = projr (init (\<lambda>parent n. []))"

definition theConverter :: service where
  "theConverter = projr (init (processNode innerConverter))"


subsection \<open>The conversion entry point\<close>

text \<open>
  \<open>preProcessHtml\<close>: the HTML is parsed into a fresh \<open>div\<close> (by the host's parser, a
  parameter here); \<open>script\<close>, \<open>style\<close> and \<open>noscript\<close> elements are removed; non-breaking
  spaces in text nodes become spaces; \<open>p\<close> and \<open>div\<close> elements that have no child node when
  they are collected are removed. The result stands for the \<open>div\<close>'s \<open>innerHTML\<close>.
\<close>

fun replaceNbsp :: "node \<Rightarrow> node" where
  "replaceNbsp (Element nm as kids) = Element nm as (map replaceNbsp kids)"
| "replaceNbsp (Text t) = Text (map (\<lambda>c. if c = CHR 0xA0 then SPC else c) t)"
| "replaceNbsp (Comment c) = Comment c"

fun removeEmpty_below :: "node list \<Rightarrow> node list" where
  "removeEmpty_below [] = []"
| "removeEmpty_below (Element nm as kids # rest) =
     (if matchesSelector [''p'', ''div''] (Element nm as kids) \<and> kids = []
      then removeEmpty_below rest
      else Element nm as (removeEmpty_below kids) # removeEmpty_below rest)"
| "removeEmpty_below (n # rest) = n # removeEmpty_below rest"

definition preProcessHtml :: "(string \<Rightarrow> node list) \<Rightarrow> string \<Rightarrow> node list" where
  "preProcessHtml parseHTML html =
     (let tempDiv = parseHTML html;
          tempDiv = removeAll_below [''script'', ''style'', ''noscript''] tempDiv;
          tempDiv = map replaceNbsp tempDiv
      in removeEmpty_below tempDiv)"

text \<open>
  The argument of \<open>convert\<close> is any value of the host language. The result record keeps
  the Markdown, the time stamp (a parameter) and the two lengths; the caller's metadata
  and the ratio printed with \<open>toFixed\<close> are left out.
\<close>

datatype js_value =
    JString string
  | JUndefined
  | JNull
  | JBoolean bool
  | JNumber int
  | JObject

fun falsy :: "js_value \<Rightarrow> bool" where
  "falsy (JString s) = (s = [])"
| "falsy JUndefined = True"
| "falsy JNull = True"
| "falsy (JBoolean b) = (\<not> b)"
| "falsy (JNumber i) = (i = 0)"
| "falsy JObject = False"

fun isString :: "js_value \<Rightarrow> bool" where
  "isString (JString s) = True"
| "isString v = False"

fun stringOf :: "js_value \<Rightarrow> string" where
  "stringOf (JString s) = s"
| "stringOf v = []"

fun message :: "js_error \<Rightarrow> string" where
  "message (Error m) = m"
| "message (ConfigurationError m) = m"

record conversion =
  markdown :: string
  convertedAt :: string
  originalLength :: nat
  markdownLength :: nat

text \<open>The body of the \<open>try\<close> block, then \<open>convert\<close> with its \<open>catch\<close>.\<close>

definition convertBody ::
  "service \<Rightarrow> (string \<Rightarrow> node list) \<Rightarrow> string \<Rightarrow> js_value \<Rightarrow> js_error + conversion" where
  "convertBody converter parseHTML now html =
     (if falsy html \<or> \<not> isString html then Inl (Error ''Invalid HTML input'')
      else (let processedHtml = preProcessHtml parseHTML (stringOf html);
                md = turndown converter processedHtml;
                md = postProcess md
            in Inr \<lparr>markdown = md, convertedAt = now,
                    originalLength = length (stringOf html), markdownLength = length md\<rparr>))"

definition convert ::
  "service \<Rightarrow> (string \<Rightarrow> node list) \<Rightarrow> string \<Rightarrow> js_value \<Rightarrow> js_error + conversion" where
  "convert converter parseHTML now html =
     (case convertBody converter parseHTML now html of
        Inl e \<Rightarrow> Inl (Error (failurePrefix @ message e))
      | Inr result \<Rightarrow> Inr result)"

section \<open>Notions of the specification and example inputs\<close>

text \<open>
  The configuration values the specification calls supported (its section 6): \<open>atx\<close>
  headings, \<open>fenced\<close> code blocks, \<open>_\<close> or \<open>*\<close> for emphasis, \<open>**\<close> or \<open>__\<close> for strong text,
  \<open>inlineLink\<close> links. An option that is not given is supported.
\<close>

definition supportedValue :: "string option \<Rightarrow> string list \<Rightarrow> bool" where
  "supportedValue v allowed = (case v of None \<Rightarrow> True | Some s \<Rightarrow> s \<in> set allowed)"

definition supportedOptions :: "string option option_set \<Rightarrow> bool" where
  "supportedOptions opts \<longleftrightarrow>
     supportedValue (headingStyle opts) [''atx'']
     \<and> supportedValue (codeBlockStyle opts) [''fenced'']
     \<and> supportedValue (emDelimiter opts) [''_'', ''*'']
     \<and> supportedValue (strongDelimiter opts) [''**'', ''__'']
     \<and> supportedValue (linkStyle opts) [''inlineLink'']"

text \<open>A configuration that asks for \<open>setext\<close> headings and gives nothing else.\<close>

definition setextOptions :: "string option option_set" where
  "setextOptions = \<lparr>headingStyle = Some ''setext'', codeBlockStyle = None, emDelimiter = None,
      strongDelimiter = None, linkStyle = None, br = None, hr = None\<rparr>"

text \<open>\<open><div>a*<!--x--><span>b</span></div>\<close>: no rule of the converter matches \<open>div\<close> or \<open>span\<close>.\<close>

definition divExample :: node where
  "divExample = Element ''DIV'' [] [Text ''a*'', Comment ''x'', Element ''SPAN'' [] [Text ''b'']]"

text \<open>A rule a caller registers for paragraphs, and a paragraph \<open><p>t</p>\<close>.\<close>

definition callerRule :: rule_spec where
  "callerRule = \<lparr>rule_filter = FString ''p'', replacement = (\<lambda>content parent n. content)\<rparr>"

definition paragraphExample :: node where
  "paragraphExample = Element ''P'' [] [Text ''t'']"

text \<open>The line \<open>a\<close>, a line of one space, an empty line and the line \<open>b\<close>.\<close>

definition blankLineExample :: string where
  "blankLineExample = ''a'' @ [NL, SPC, NL, NL] @ ''b''"

text \<open>The nodes of \<open>a<br> <p>b</p>\<close>, which the converter turns into that string.\<close>

definition blankLineSource :: "node list" where
  "blankLineSource = [Text ''a'', Element ''BR'' [] [], Text '' '', Element ''P'' [] [Text ''b'']]"


text \<open>
  The rule list of a converter built by \<open>init\<close>, in pieces: the five custom rules in front
  of \<open>improvedLists\<close>, the two rules between it and the default \<open>list\<close> rule, and the eleven
  default rules behind that. \<open>isList\<close> says that a node's name is \<open>ul\<close> or \<open>ol\<close> in any case.
\<close>

definition named :: "string \<Rightarrow> rule_spec \<Rightarrow> rule" where
  "named nm r = \<lparr>rule_filter = rule_filter r, replacement = replacement r, name = nm\<rparr>"

definition baseService :: service where
  "baseService = \<lparr>options = \<lparr>headingStyle = ''atx'', codeBlockStyle = ''fenced'', emDelimiter = ''_'',
       strongDelimiter = ''**'', linkStyle = ''inlineLink'', br = [NL], hr = ''---''\<rparr>, rules = []\<rparr>"

definition customHead :: "rule list" where
  "customHead = [named ''blockquotes'' blockquotesRule, named ''underline'' underlineRule,
     named ''strikethrough'' strikethroughRule, named ''images'' imagesRule,
     named ''codeBlocks'' codeBlocksRule]"

definition betweenLists :: "rule list" where
  "betweenLists = [named ''tables'' tablesRule, named ''listItem'' listItemRule]"

definition defaultTail :: "rule list" where
  "defaultTail = [named ''blockquote'' blockquoteRule,
     named ''horizontalRule'' (horizontalRuleRule baseService),
     named ''lineBreak'' (lineBreakRule baseService), named ''codeBlock'' codeBlockRule,
     named ''code'' codeRule, named ''image'' imageRule, named ''link'' linkRule,
     named ''emphasis'' (emphasisRule baseService), named ''strong'' (strongRule baseService),
     named ''heading'' headingRule, named ''paragraph'' paragraphRule]"

definition isList :: "node \<Rightarrow> bool" where
  "isList n \<longleftrightarrow> toLowerCase (nodeName n) = ''ul'' \<or> toLowerCase (nodeName n) = ''ol''"


text \<open>
  What the list transform writes for one collected item, given its index: nothing when the
  item's text is blank; otherwise the marker (the number \<open>index + 1\<close> and a dot for an
  ordered list, a dash otherwise), the trimmed text with every line after the first
  indented, and a newline.
\<close>

definition marker :: "bool \<Rightarrow> nat \<Rightarrow> string" where
  "marker isOrdered index = (if isOrdered then decimal (index + 1) @ ''. '' else ''- '')"

definition indentOf :: "bool \<Rightarrow> string" where
  "indentOf isOrdered = (if isOrdered then ''   '' else ''  '')"

definition indented :: "bool \<Rightarrow> string \<Rightarrow> string" where
  "indented isOrdered content =
     concat (map (\<lambda>c. if c = NL then NL # indentOf isOrdered else [c]) content)"

definition itemEntry :: "walker \<Rightarrow> bool \<Rightarrow> nat \<Rightarrow> node \<Rightarrow> string" where
  "itemEntry self isOrdered index item =
     (let content = trim (getTextContent self item)
      in if content = [] then []
         else marker isOrdered index @ indented isOrdered content @ [NL])"

text \<open>A list numbered 1, 2, 3, ... with one entry for each of the given item texts.\<close>

definition numberedFromOne :: "string list \<Rightarrow> string" where
  "numberedFromOne contents =
     [NL, NL] @ concat (map (\<lambda>(k, c). decimal (k + 1) @ ''. '' @ c @ [NL]) (enumerate 0 contents)) @ [NL]"

text \<open>\<open><ol><li>x</li><li></li><li>y</li></ol>\<close>, with its empty item and its last item.\<close>

definition emptyItem :: node where
  "emptyItem = Element ''LI'' [] []"

definition lastItem :: node where
  "lastItem = Element ''LI'' [] [Text ''y'']"

definition gapList :: node where
  "gapList = Element ''OL'' [] [Element ''LI'' [] [Text ''x''], emptyItem, lastItem]"

text \<open>\<open><ol start="5"><li>x</li><li>y</li></ol>\<close>.\<close>

definition startList :: node where
  "startList = Element ''OL'' [(''start'', ''5'')]
     [Element ''LI'' [] [Text ''x''], Element ''LI'' [] [Text ''y'']]"

text \<open>\<open><ul><li>a<ul><li>b</li></ul></li></ul>\<close>, with its inner and its outer item.\<close>

definition innerItem :: node where
  "innerItem = Element ''LI'' [] [Text ''b'']"

definition outerItem :: node where
  "outerItem = Element ''LI'' [] [Text ''a'', Element ''UL'' [] [innerItem]]"

definition nestedList :: node where
  "nestedList = Element ''UL'' [] [outerItem]"

text \<open>
  A line of a Markdown table, and the cell texts of a row as the table transform writes
  them: the text content of each \<open>td\<close> or \<open>th\<close> below the row, trimmed, with its pipes
  escaped.
\<close>

definition tableLine :: "string list \<Rightarrow> string" where
  "tableLine cells = ''| '' @ join '' | '' cells @ '' |'' @ [NL]"

definition rowCells :: "node \<Rightarrow> string list" where
  "rowCells row = map (\<lambda>cell. escapePipes (trim (textContent cell))) (querySelectorAll row [''td'', ''th''])"

text \<open>\<open><table><tr><td> a|b </td><td>c</td></tr></table>\<close>.\<close>

definition tableExample :: node where
  "tableExample = Element ''TABLE'' []
     [Element ''TR'' [] [Element ''TD'' [] [Text '' a|b ''], Element ''TD'' [] [Text ''c'']]]"

text \<open>
  Where the expression \<open>/language-(\w+)/\<close> can match in a class value: \<open>matchHere s\<close> says
  that \<open>s\<close> starts with \<open>language-\<close> and a word character, \<open>matchesAt cls k\<close> that the class
  value does so from index \<open>k\<close> on.
\<close>

definition matchHere :: "string \<Rightarrow> bool" where
  "matchHere s \<longleftrightarrow>
     take 9 s = ''language-'' \<and> (case drop 9 s of [] \<Rightarrow> False | c # _ \<Rightarrow> isWordChar c)"

definition matchesAt :: "string \<Rightarrow> nat \<Rightarrow> bool" where
  "matchesAt cls k \<longleftrightarrow> matchHere (drop k cls)"

text \<open>
  The language tag as the specification words it: the class value is a list of tokens
  separated by white space, and the tag is what follows \<open>language-\<close> in the first token
  that starts with it (and is longer); without such a token the tag is empty.
\<close>

definition isAsciiSpace :: "char \<Rightarrow> bool" where
  "isAsciiSpace c \<longleftrightarrow> c = SPC \<or> c = TAB \<or> c = NL \<or> c = CHR 0x0C \<or> c = CR"

fun tokensFrom :: "string \<Rightarrow> string \<Rightarrow> string list" where
  "tokensFrom cur [] = (if cur = [] then [] else [cur])"
| "tokensFrom cur (c # cs) =
     (if isAsciiSpace c then (if cur = [] then tokensFrom [] cs else cur # tokensFrom [] cs)
      else tokensFrom (cur @ [c]) cs)"

definition classTokens :: "string \<Rightarrow> string list" where
  "classTokens cls = tokensFrom [] cls"

definition tokenLanguage :: "string \<Rightarrow> string" where
  "tokenLanguage cls =
     (case filter (\<lambda>t. take 9 t = ''language-'' \<and> drop 9 t \<noteq> []) (classTokens cls) of
        [] \<Rightarrow> []
      | t # _ \<Rightarrow> drop 9 t)"

text \<open>
  \<open>code\<close> elements of class \<open>nolanguage-x\<close>, \<open>language-c++\<close>, \<open>language-js\<close> and
  \<open>language- language-py\<close>, each in a \<open>pre\<close>.
\<close>

definition substringPreExample :: node where
  "substringPreExample = Element ''PRE'' [] [Element ''CODE'' [(''class'', ''nolanguage-x'')] [Text ''y'']]"

definition cppPreExample :: node where
  "cppPreExample = Element ''PRE'' [] [Element ''CODE'' [(''class'', ''language-c++'')] [Text ''y'']]"

definition tokenPreExample :: node where
  "tokenPreExample = Element ''PRE'' [] [Element ''CODE'' [(''class'', ''language-js'')] []]"

definition secondPreExample :: node where
  "secondPreExample =
     Element ''PRE'' [] [Element ''CODE'' [(''class'', ''language- language-py'')] [Text ''z'']]"

text \<open>\<open><pre><code class="hljs language-js">1 < 2</code></pre>\<close>.\<close>

definition preExample :: node where
  "preExample = Element ''PRE'' [] [Element ''CODE'' [(''class'', ''hljs language-js'')] [Text ''1 < 2'']]"


text \<open>
  \<open><pre><code>a*<b>b</b></code></pre>\<close> and \<open><pre><code class="hljs"></code></pre>\<close>.
\<close>

definition plainPreExample :: node where
  "plainPreExample = Element ''PRE'' [] [Element ''CODE'' [] [Text ''a*'', Element ''B'' [] [Text ''b'']]]"

definition otherPreExample :: node where
  "otherPreExample = Element ''PRE'' [] [Element ''CODE'' [(''class'', ''hljs'')] []]"

section \<open>Properties of the registry and the walker\<close>

lemma childrenLoop_concat:
  "childrenLoop this n result kids = result @ concat (map (processNode this (Some n)) kids)"
  by (induction kids arbitrary: result) simp_all

lemma findIn_None: "findIn rs parent n = None \<longleftrightarrow> (\<forall>r \<in> set rs. \<not> matchesFilter parent n (rule_filter r))"
  by (induction rs) auto

lemma findIn_Some:
  "findIn rs parent n = Some r \<Longrightarrow>
     \<exists>pre post. rs = pre @ r # post \<and> matchesFilter parent n (rule_filter r)
       \<and> (\<forall>q \<in> set pre. \<not> matchesFilter parent n (rule_filter q))"
proof (induction rs)
  case Nil
  then show ?case by simp
next
  case (Cons a rs)
  show ?case
  proof (cases "matchesFilter parent n (rule_filter a)")
    case True
    with Cons.prems have "a = r" by simp
    with True have "a # rs = [] @ r # rs \<and> matchesFilter parent n (rule_filter r)
        \<and> (\<forall>q \<in> set []. \<not> matchesFilter parent n (rule_filter q))" by simp
    then show ?thesis by blast
  next
    case False
    with Cons.prems have "findIn rs parent n = Some r" by simp
    from Cons.IH [OF this] obtain pre post where
      h: "rs = pre @ r # post" "matchesFilter parent n (rule_filter r)"
         "\<forall>q \<in> set pre. \<not> matchesFilter parent n (rule_filter q)" by blast
    with False have "a # rs = (a # pre) @ r # post \<and> matchesFilter parent n (rule_filter r)
        \<and> (\<forall>q \<in> set (a # pre). \<not> matchesFilter parent n (rule_filter q))" by simp
    then show ?thesis by blast
  qed
qed

lemma options_addRule [simp]: "options (addRule nm r this) = options this"
  by (simp add: addRule_def)

lemma options_fold_addRule [simp]:
  "options (fold (\<lambda>(nm, r). addRule nm r) xs this) = options this"
  by (induction xs arbitrary: this) (auto simp: case_prod_beta)


section \<open>The converter and its list closures\<close>

lemma lower_literals:
  "toLowerCase ''p'' = ''p''" "toLowerCase ''h1'' = ''h1''" "toLowerCase ''h2'' = ''h2''"
  "toLowerCase ''h3'' = ''h3''" "toLowerCase ''h4'' = ''h4''" "toLowerCase ''h5'' = ''h5''"
  "toLowerCase ''h6'' = ''h6''" "toLowerCase ''strong'' = ''strong''" "toLowerCase ''b'' = ''b''"
  "toLowerCase ''em'' = ''em''" "toLowerCase ''i'' = ''i''" "toLowerCase ''a'' = ''a''"
  "toLowerCase ''img'' = ''img''" "toLowerCase ''code'' = ''code''" "toLowerCase ''pre'' = ''pre''"
  "toLowerCase ''br'' = ''br''" "toLowerCase ''hr'' = ''hr''"
  "toLowerCase ''blockquote'' = ''blockquote''" "toLowerCase ''ul'' = ''ul''"
  "toLowerCase ''ol'' = ''ol''" "toLowerCase ''li'' = ''li''" "toLowerCase ''table'' = ''table''"
  "toLowerCase ''del'' = ''del''" "toLowerCase ''s'' = ''s''" "toLowerCase ''strike'' = ''strike''"
  "toLowerCase ''u'' = ''u''" "toLowerCase ''PRE'' = ''pre''"
  by code_simp+

lemma init_Inr: "init self = Inr (projr (init self))"
  by (simp add: init_def TurndownService_def)

lemma rules_init:
  "rules (projr (init self)) =
     customHead @ named ''improvedLists'' (improvedListsRule self) # betweenLists
       @ named ''list'' (listRule self) # defaultTail"
  by (simp add: init_def TurndownService_def initDefaultRules_def initCustomRules_def
      addRule_def Let_def customHead_def betweenLists_def defaultTail_def named_def baseService_def
      strongRule_def emphasisRule_def lineBreakRule_def horizontalRuleRule_def orElse_def)

lemma findIn_append:
  "findIn (xs @ ys) parent n = (case findIn xs parent n of Some r \<Rightarrow> Some r | None \<Rightarrow> findIn ys parent n)"
  by (induction xs) simp_all

lemma customHead_list: "isList n \<Longrightarrow> findIn customHead parent n = None"
  by (auto simp: isList_def customHead_def named_def blockquotesRule_def underlineRule_def
      strikethroughRule_def imagesRule_def codeBlocksRule_def lower_literals)

lemma findMatchingRule_init:
  "findMatchingRule (projr (init self)) parent n =
     (if isList n then Some (named ''improvedLists'' (improvedListsRule self))
      else findIn (customHead @ betweenLists @ defaultTail) parent n)"
proof (cases "isList n")
  case True
  then have "matchesFilter parent n (FArray [FString ''ul'', FString ''ol''])"
    by (auto simp: isList_def lower_literals)
  with True show ?thesis
    by (simp add: findMatchingRule_def rules_init findIn_append customHead_list named_def improvedListsRule_def)
next
  case False
  then have "\<not> matchesFilter parent n (FArray [FString ''ul'', FString ''ol''])"
    by (auto simp: isList_def lower_literals)
  with False show ?thesis
    by (simp add: findMatchingRule_def rules_init findIn_append named_def improvedListsRule_def listRule_def
        split: option.splits)
qed

lemma processNode_init:
  "processNode (projr (init self)) parent (Element nm as kids) =
     (if isList (Element nm as kids) then convertList self (Element nm as kids)
      else (let content = concat (map (processNode (projr (init self)) (Some (Element nm as kids))) kids)
            in case findIn (customHead @ betweenLists @ defaultTail) parent (Element nm as kids) of
                 Some r \<Rightarrow> replacement r content parent (Element nm as kids)
               | None \<Rightarrow> content))"
  by (simp add: findMatchingRule_init childrenLoop_concat named_def improvedListsRule_def Let_def
      split: option.splits)

text \<open>Two converters walk a tree alike when their list closures agree on the lists in it.\<close>

lemma walk_cong:
  "(\<And>m. m = n \<or> m \<in> set (descendants n) \<Longrightarrow> isList m \<Longrightarrow> convertList self m = convertList self' m)
   \<Longrightarrow> processNode (projr (init self)) parent n = processNode (projr (init self')) parent n"
proof (induction n arbitrary: parent)
  case (Element nm as kids)
  have kidsEq: "processNode (projr (init self)) p k = processNode (projr (init self')) p k"
    if "k \<in> set kids" for k p
  proof (rule Element.IH [OF that])
    fix m assume m: "m = k \<or> m \<in> set (descendants k)" and l: "isList m"
    from m that have "m \<in> set (descendants (Element nm as kids))" by auto
    with l show "convertList self m = convertList self' m" using Element.prems by blast
  qed
  then have c: "concat (map (processNode (projr (init self)) p) kids)
               = concat (map (processNode (projr (init self')) p) kids)" for p
    by (simp cong: map_cong)
  have l: "isList (Element nm as kids) \<Longrightarrow>
      convertList self (Element nm as kids) = convertList self' (Element nm as kids)"
    using Element.prems by blast
  show ?case
    unfolding processNode_init c using l by simp
qed simp_all


lemma removeAll_below_clean:
  "m \<in> set (removeAll_below tags xs) \<or> (\<exists>x \<in> set (removeAll_below tags xs). m \<in> set (descendants x))
   \<Longrightarrow> \<not> matchesSelector tags m"
proof (induction tags xs arbitrary: m rule: removeAll_below.induct)
  case (1 tags)
  then show ?case by simp
next
  case (2 tags nm as kids rest)
  show ?case
  proof (cases "matchesSelector tags (Element nm as kids)")
    case True
    with 2 show ?thesis by simp
  next
    case False
    with "2.prems" consider
        "m = Element nm as (removeAll_below tags kids)"
      | "m \<in> set (removeAll_below tags kids) \<or> (\<exists>x \<in> set (removeAll_below tags kids). m \<in> set (descendants x))"
      | "m \<in> set (removeAll_below tags rest) \<or> (\<exists>x \<in> set (removeAll_below tags rest). m \<in> set (descendants x))"
      by auto
    then show ?thesis
    proof cases
      case 1
      with False show ?thesis by (simp add: matchesSelector_def)
    next
      case 2
      with "2.IH"(2) [OF False] show ?thesis by blast
    next
      case 3
      with "2.IH"(3) [OF False] show ?thesis by blast
    qed
  qed
qed (auto simp: matchesSelector_def)


lemma isList_matchesSelector: "isList m \<Longrightarrow> matchesSelector [''ul'', ''ol''] m"
proof (cases m)
  case (Element nm as kids)
  then show "isList m \<Longrightarrow> matchesSelector [''ul'', ''ol''] m"
    by (auto simp: isList_def matchesSelector_def)
next
  case (Text t)
  have "toLowerCase ''#text'' = ''#text''" by code_simp
  with Text show "isList m \<Longrightarrow> matchesSelector [''ul'', ''ol''] m"
    by (simp add: isList_def)
next
  case (Comment c)
  have "toLowerCase ''#comment'' = ''#comment''" by code_simp
  with Comment show "isList m \<Longrightarrow> matchesSelector [''ul'', ''ol''] m"
    by (simp add: isList_def)
qed

lemma not_isList_bodyOf: "\<not> isList (bodyOf xs)"
proof -
  have "toLowerCase ''BODY'' = ''body''" by code_simp
  then show ?thesis by (simp add: isList_def bodyOf_def)
qed

text \<open>On the stripped copy of an item every converter built by \<open>init\<close> gives the same text.\<close>

lemma getTextContent_init:
  "getTextContent (processNode (projr (init self))) item
     = getTextContent (processNode (projr (init self'))) item"
proof -
  let ?xs = "removeAll_below [''ul'', ''ol''] [item]"
  have "processNode (projr (init self)) p (bodyOf ?xs) = processNode (projr (init self')) p (bodyOf ?xs)" for p
  proof (rule walk_cong)
    fix m assume m: "m = bodyOf ?xs \<or> m \<in> set (descendants (bodyOf ?xs))" and l: "isList m"
    from l not_isList_bodyOf have "m \<noteq> bodyOf ?xs" by blast
    with m have "m \<in> set ?xs \<or> (\<exists>x \<in> set ?xs. m \<in> set (descendants x))"
      by (auto simp: bodyOf_def)
    then have "\<not> matchesSelector [''ul'', ''ol''] m" by (rule removeAll_below_clean)
    with l isList_matchesSelector show "convertList self m = convertList self' m" by blast
  qed
  then show ?thesis by (simp add: getTextContent_def turndownWith_def)
qed

lemma convertItems_cong:
  "(\<And>item. item \<in> set items \<Longrightarrow> getTextContent self item = getTextContent self' item)
   \<Longrightarrow> convertItems self isOrdered index md items = convertItems self' isOrdered index md items"
  by (induction items arbitrary: index md) (simp_all add: Let_def)

lemma convertList_init:
  "convertList (processNode (projr (init self))) m = convertList (processNode (projr (init self'))) m"
  unfolding convertList_def Let_def
  using convertItems_cong [of "querySelectorAll m [''li'']" "processNode (projr (init self))"
          "processNode (projr (init self'))"] getTextContent_init [of self _ self']
  by simp

lemma theConverter_closed:
  "processNode (projr (init (processNode theConverter))) parent n = processNode theConverter parent n"
proof -
  have "convertList (processNode (projr (init (processNode innerConverter)))) m
          = convertList (processNode innerConverter) m" for m
    unfolding innerConverter_def by (rule convertList_init)
  then show ?thesis
    unfolding theConverter_def by (intro walk_cong)
qed

section \<open>The loops of the list transforms in closed form\<close>

lemma splitLines_not_Nil [simp]: "splitLines s \<noteq> []"
  by (induction s) (auto split: list.splits)

lemma mapIndexed_pos:
  "0 < i \<Longrightarrow> mapIndexed (\<lambda>line lineIndex. if lineIndex = 0 then f line else g line) i xs = map g xs"
  by (induction xs arbitrary: i) simp_all

lemma join_indent_lines:
  "join [NL] (map (\<lambda>l. ind @ l) (splitLines s)) = ind @ concat (map (\<lambda>c. if c = NL then NL # ind else [c]) s)"
proof (induction s)
  case Nil
  then show ?case by simp
next
  case (Cons c s)
  obtain l ls where sp: "splitLines s = l # ls" by (cases "splitLines s") simp_all
  with Cons show ?case by (cases ls) auto
qed

lemma join_first_line:
  "splitLines s = l # ls \<Longrightarrow>
     join [NL] ((pre @ l) # map (\<lambda>l. ind @ l) ls)
       = pre @ concat (map (\<lambda>c. if c = NL then NL # ind else [c]) s)"
proof (induction s arbitrary: l ls pre)
  case Nil
  then show ?case by simp
next
  case (Cons c s)
  obtain l' ls' where sp: "splitLines s = l' # ls'" by (cases "splitLines s") simp_all
  show ?case
  proof (cases "c = NL")
    case True
    with Cons.prems sp have l: "l = []" and ls: "ls = l' # ls'" by simp_all
    have "join [NL] ((pre @ []) # map (\<lambda>l. ind @ l) (l' # ls'))
            = pre @ [NL] @ join [NL] (map (\<lambda>l. ind @ l) (splitLines s))"
      using sp by simp
    with True l ls show ?thesis by (simp add: join_indent_lines)
  next
    case False
    with Cons.prems sp have l: "l = c # l'" and ls: "ls = ls'" by simp_all
    from Cons.IH [OF sp, of "pre @ [c]"] False l ls show ?thesis by simp
  qed
qed

lemma formatted_lines:
  "join [NL] (mapIndexed (\<lambda>line lineIndex. if lineIndex = 0 then pre @ line else ind @ line) 0 (splitLines s))
     = pre @ concat (map (\<lambda>c. if c = NL then NL # ind else [c]) s)"
proof -
  obtain l ls where sp: "splitLines s = l # ls" by (cases "splitLines s") simp_all
  then show ?thesis by (simp add: mapIndexed_pos join_first_line)
qed

lemma convertItems_step:
  "convertItems self isOrdered index md (item # items)
     = convertItems self isOrdered (index + 1) (md @ itemEntry self isOrdered index item) items"
  unfolding convertItems.simps Let_def itemEntry_def marker_def indented_def indentOf_def
  by (simp add: formatted_lines)

lemma convertItems_closed:
  "convertItems self isOrdered index md items
     = md @ concat (map (\<lambda>(k, item). itemEntry self isOrdered k item) (enumerate index items))"
proof (induction items arbitrary: index md)
  case Nil
  then show ?case by simp
next
  case (Cons item items)
  show ?case
    unfolding convertItems_step by (simp add: Cons.IH)
qed

lemma dropWhile_all: "(\<forall>x \<in> set (dropWhile P s). P x) \<longleftrightarrow> (\<forall>x \<in> set s. P x)"
proof
  assume a: "\<forall>x \<in> set (dropWhile P s). P x"
  have "set s = set (takeWhile P s) \<union> set (dropWhile P s)"
    by (metis set_append takeWhile_dropWhile_id)
  with a show "\<forall>x \<in> set s. P x" by (auto dest: set_takeWhileD)
next
  assume "\<forall>x \<in> set s. P x"
  then show "\<forall>x \<in> set (dropWhile P s). P x" by (auto dest: set_dropWhileD)
qed

lemma trim_Nil_iff: "trim s = [] \<longleftrightarrow> (\<forall>c \<in> set s. isWhiteSpace c)"
  by (simp add: trim_def dropWhile_eq_Nil_conv dropWhile_all)

lemma listItems_closed:
  "listItems self n isOrdered index result items
     = result @ concat (map (\<lambda>(k, item). let text = trim (self (Some n) item)
                                          in if text = [] then [] else marker isOrdered k @ text @ [NL])
                          (enumerate index items))"
  by (induction items arbitrary: index result) (simp_all add: Let_def marker_def)

section \<open>Walking the example trees\<close>

lemmas rule_defs = customHead_def betweenLists_def defaultTail_def named_def
  blockquotesRule_def underlineRule_def strikethroughRule_def imagesRule_def codeBlocksRule_def
  tablesRule_def listItemRule_def blockquoteRule_def horizontalRuleRule_def lineBreakRule_def
  codeBlockRule_def codeRule_def imageRule_def linkRule_def emphasisRule_def strongRule_def
  headingRule_def paragraphRule_def

lemma upper_literals:
  "toLowerCase ''BODY'' = ''body''" "toLowerCase ''LI'' = ''li''" "toLowerCase ''DIV'' = ''div''"
  "toLowerCase ''SPAN'' = ''span''" "toLowerCase ''P'' = ''p''" "toLowerCase ''UL'' = ''ul''"
  "toLowerCase ''OL'' = ''ol''"
  by code_simp+

lemma static_BODY: "findIn (customHead @ betweenLists @ defaultTail) parent (Element ''BODY'' as kids) = None"
  by (simp add: rule_defs lower_literals upper_literals)

lemma static_DIV: "findIn (customHead @ betweenLists @ defaultTail) parent (Element ''DIV'' as kids) = None"
  by (simp add: rule_defs lower_literals upper_literals)

lemma static_SPAN: "findIn (customHead @ betweenLists @ defaultTail) parent (Element ''SPAN'' as kids) = None"
  by (simp add: rule_defs lower_literals upper_literals)

lemma static_LI:
  "findIn (customHead @ betweenLists @ defaultTail) parent (Element ''LI'' as kids)
     = Some (named ''listItem'' listItemRule)"
  by (simp add: rule_defs lower_literals upper_literals)

lemma static_P:
  "findIn (customHead @ betweenLists @ defaultTail) parent (Element ''P'' as kids)
     = Some (named ''paragraph'' paragraphRule)"
  by (simp add: rule_defs lower_literals upper_literals)

lemma removeAll_below_texts: "removeAll_below tags (map Text ts) = map Text ts"
  by (induction ts) simp_all

lemma processNode_texts: "concat (map (processNode this p \<circ> Text) ts) = concat ts"
  by (induction ts) simp_all

text \<open>The text of an item that, once stripped of lists, holds text nodes only.\<close>

lemma getTextContent_texts:
  assumes "removeAll_below [''ul'', ''ol''] [item] = [Element ''LI'' as (map Text ts)]"
  shows "getTextContent (processNode (projr (init self))) item = trim (trim (concat ts))"
proof -
  have l: "\<not> isList (Element ''LI'' as (map Text ts))" "\<not> isList (bodyOf xs)" for xs
    by (simp_all add: isList_def upper_literals bodyOf_def)
  have "processNode (projr (init self)) p (Element ''LI'' as (map Text ts)) = trim (concat ts)" for p
    using l(1) by (simp add: processNode_init static_LI processNode_texts named_def listItemRule_def
        del: processNode.simps(3))
  then have "processNode (projr (init self)) p (bodyOf [Element ''LI'' as (map Text ts)]) = trim (concat ts)" for p
    using l(2) [of "[Element ''LI'' as (map Text ts)]"]
    unfolding bodyOf_def by (simp add: processNode_init static_BODY del: processNode.simps(3))
  with assms show ?thesis by (simp add: getTextContent_def turndownWith_def)
qed

lemma gapList_items:
  "querySelectorAll gapList [''li''] = [Element ''LI'' [] [Text ''x''], emptyItem, lastItem]"
  by code_simp

lemma trim_literals: "trim [] = []" "trim ''x'' = ''x''" "trim ''y'' = ''y''" "trim ''a'' = ''a''" "trim ''b'' = ''b''"
  by code_simp+

lemma plain_items:
  "getTextContent (processNode (projr (init self))) (Element ''LI'' [] [Text ''x'']) = ''x''"
  "getTextContent (processNode (projr (init self))) emptyItem = []"
  "getTextContent (processNode (projr (init self))) lastItem = ''y''"
  "getTextContent (processNode (projr (init self))) innerItem = ''b''"
  "getTextContent (processNode (projr (init self))) outerItem = ''a''"
proof -
  show "getTextContent (processNode (projr (init self))) (Element ''LI'' [] [Text ''x'']) = ''x''"
    using getTextContent_texts [of "Element ''LI'' [] [Text ''x'']" "[]" "[''x'']" self]
    by (simp add: matchesSelector_def upper_literals trim_literals)
  show "getTextContent (processNode (projr (init self))) emptyItem = []"
    using getTextContent_texts [of emptyItem "[]" "[]" self]
    by (simp add: matchesSelector_def upper_literals trim_literals emptyItem_def)
  show "getTextContent (processNode (projr (init self))) lastItem = ''y''"
    using getTextContent_texts [of lastItem "[]" "[''y'']" self]
    by (simp add: matchesSelector_def upper_literals trim_literals lastItem_def)
  show "getTextContent (processNode (projr (init self))) innerItem = ''b''"
    using getTextContent_texts [of innerItem "[]" "[''b'']" self]
    by (simp add: matchesSelector_def upper_literals trim_literals innerItem_def)
  show "getTextContent (processNode (projr (init self))) outerItem = ''a''"
    using getTextContent_texts [of outerItem "[]" "[''a'']" self]
    by (simp add: matchesSelector_def upper_literals trim_literals outerItem_def innerItem_def)
qed

lemma decimal_small:
  "decimal (Suc 0) = ''1''" "decimal (Suc (Suc 0)) = ''2''" "decimal (Suc (Suc (Suc 0))) = ''3''"
  by code_simp+

lemma indented_plain: "NL \<notin> set t \<Longrightarrow> indented isOrdered t = t"
  by (induction t) (auto simp: indented_def)

lemma itemEntry_plain:
  "getTextContent self item = t \<Longrightarrow> trim t = t \<Longrightarrow> t \<noteq> [] \<Longrightarrow> NL \<notin> set t
   \<Longrightarrow> itemEntry self isOrdered k item = marker isOrdered k @ t @ [NL]"
  by (simp add: itemEntry_def indented_plain)

lemma itemEntry_blank: "getTextContent self item = [] \<Longrightarrow> itemEntry self isOrdered k item = []"
  by (simp add: itemEntry_def trim_literals)

lemma gapList_entries:
  "itemEntry (processNode (projr (init self))) True 0 (Element ''LI'' [] [Text ''x'']) = ''1. x'' @ [NL]"
  "itemEntry (processNode (projr (init self))) True (Suc 0) emptyItem = []"
  "itemEntry (processNode (projr (init self))) True (Suc (Suc 0)) lastItem = ''3. y'' @ [NL]"
  by (simp_all add: itemEntry_plain [OF plain_items(1)] itemEntry_blank [OF plain_items(2)]
      itemEntry_plain [OF plain_items(3)] trim_literals marker_def decimal_small)

lemma gapList_output:
  "convertList (processNode (projr (init self))) gapList
     = [NL, NL] @ ''1. x'' @ [NL] @ ''3. y'' @ [NL, NL]"
proof -
  have o: "toLowerCase (nodeName gapList) = ''ol''" by (simp add: gapList_def upper_literals)
  show ?thesis
    by (simp add: convertList_def o gapList_items convertItems_closed enumerate_simps gapList_entries)
qed

lemma ordered_entries:
  "(\<forall>item \<in> set items. trim (getTextContent self item) \<noteq> []) \<Longrightarrow>
   concat (map (\<lambda>(k, item). itemEntry self True k item) (enumerate i items))
     = concat (map (\<lambda>(k, c). decimal (k + 1) @ ''. '' @ c @ [NL])
         (enumerate i (map (\<lambda>item. indented True (trim (getTextContent self item))) items)))"
  by (induction items arbitrary: i) (simp_all add: itemEntry_def marker_def)

lemma unordered_entries:
  "concat (map (\<lambda>(k, item). itemEntry self False k item) (enumerate i items))
     = concat (map (\<lambda>item. let content = trim (getTextContent self item)
                            in if content = [] then [] else ''- '' @ indented False content @ [NL]) items)"
  by (induction items arbitrary: i) (simp_all add: itemEntry_def marker_def Let_def)

lemma startList_items:
  "querySelectorAll startList [''li''] = [Element ''LI'' [] [Text ''x''], lastItem]"
  by code_simp

lemma nestedList_items: "querySelectorAll nestedList [''li''] = [outerItem, innerItem]"
  by code_simp


section \<open>Tables and code blocks\<close>

lemma cellContent_fun: "cellContent = (\<lambda>cell. escapePipes (trim (textContent cell)))"
  by (simp add: fun_eq_iff cellContent_def)

lemma tableRows_step:
  "tableRows hasHeader k md (row # rest)
     = tableRows hasHeader (k + 1)
         (md @ tableLine (rowCells row)
             @ (if k = 0 \<and> hasHeader then tableLine (map (\<lambda>_. ''---'') (rowCells row)) else []))
         rest"
  unfolding tableRows.simps Let_def tableLine_def rowCells_def cellContent_fun
  by simp

lemma tableRows_closed:
  "tableRows hasHeader rowIndex md rows
     = md @ concat (map (\<lambda>(k, row). tableLine (rowCells row)
                          @ (if k = 0 \<and> hasHeader then tableLine (map (\<lambda>_. ''---'') (rowCells row)) else []))
                     (enumerate rowIndex rows))"
proof (induction rows arbitrary: rowIndex md)
  case Nil
  then show ?case by simp
next
  case (Cons row rows)
  show ?case unfolding tableRows_step by (simp add: Cons.IH)
qed

lemma tableRows_rest:
  "0 < rowIndex \<Longrightarrow>
   concat (map (\<lambda>(k, row). tableLine (rowCells row)
                          @ (if k = 0 \<and> hasHeader then tableLine (map (\<lambda>_. ''---'') (rowCells row)) else []))
                     (enumerate rowIndex rows))
     = concat (map (\<lambda>row. tableLine (rowCells row)) rows)"
  by (induction rows arbitrary: rowIndex) simp_all

lemma escapePipes_Cons:
  "escapePipes (c # s) = (if c = CHR ''|'' then [BSL, CHR ''|''] else [c]) @ escapePipes s"
  by (simp add: escapePipes_def)

lemma escapePipes_guarded:
  "i < length (escapePipes s) \<Longrightarrow> escapePipes s ! i = CHR ''|''
   \<Longrightarrow> 0 < i \<and> escapePipes s ! (i - 1) = BSL"
proof (induction s arbitrary: i)
  case Nil
  then show ?case by (simp add: escapePipes_def)
next
  case (Cons c s)
  show ?case
  proof (cases "c = CHR ''|''")
    case True
    then have e: "escapePipes (c # s) = BSL # CHR ''|'' # escapePipes s" by (simp add: escapePipes_Cons)
    show ?thesis
    proof (cases "i < 2")
      case True
      with Cons.prems e show ?thesis by (cases i) auto
    next
      case False
      then obtain j where j: "i = Suc (Suc j)" by (metis not_less_eq less_2_cases_iff nat.exhaust numeral_2_eq_2 zero_less_Suc less_Suc_eq_0_disj)
      with Cons.prems e have "j < length (escapePipes s)" "escapePipes s ! j = CHR ''|''" by simp_all
      from Cons.IH [OF this] j e show ?thesis by (cases j) simp_all
    qed
  next
    case False
    then have e: "escapePipes (c # s) = c # escapePipes s" by (simp add: escapePipes_Cons)
    show ?thesis
    proof (cases i)
      case 0
      with Cons.prems e False show ?thesis by simp
    next
      case (Suc j)
      with Cons.prems e have "j < length (escapePipes s)" "escapePipes s ! j = CHR ''|''" by simp_all
      from Cons.IH [OF this] Suc e show ?thesis by (cases j) simp_all
    qed
  qed
qed

lemma languageMatch_here:
  assumes "w \<noteq> []" "\<forall>c \<in> set w. isWordChar c" "rest = [] \<or> \<not> isWordChar (hd rest)"
  shows "languageMatch (''language-'' @ w @ rest) = Some w"
proof -
  from assms(3) have "takeWhile isWordChar rest = []" by (cases rest) auto
  with assms(2) have "takeWhile isWordChar (w @ rest) = w" by (simp add: takeWhile_append2)
  with assms(1) show ?thesis by (simp add: Let_def)
qed

lemma takeWhile_Nil_iff: "takeWhile P xs = [] \<longleftrightarrow> (case xs of [] \<Rightarrow> True | x # _ \<Rightarrow> \<not> P x)"
  by (cases xs) simp_all

lemma languageMatch_Cons:
  "languageMatch (c # cs) =
     (if matchHere (c # cs) then Some (takeWhile isWordChar (drop 9 (c # cs))) else languageMatch cs)"
proof -
  have "(take 9 (c # cs) = ''language-'' \<and> takeWhile isWordChar (drop 9 (c # cs)) \<noteq> [])
          \<longleftrightarrow> matchHere (c # cs)"
    unfolding matchHere_def takeWhile_Nil_iff by (cases "drop 9 (c # cs)") simp_all
  then show ?thesis
    unfolding languageMatch.simps(2) [of c cs] Let_def by (simp only:)
qed

lemma matchesAt_0: "matchesAt cls 0 = matchHere cls"
  by (simp add: matchesAt_def)

lemma matchesAt_Suc: "matchesAt (c # cs) (Suc k) = matchesAt cs k"
  by (simp add: matchesAt_def)

lemma matchHere_Nil: "\<not> matchHere []"
  by (simp add: matchHere_def)

lemma languageMatch_none: "(\<forall>k. \<not> matchesAt cls k) \<Longrightarrow> languageMatch cls = None"
proof (induction cls)
  case Nil
  then show ?case by simp
next
  case (Cons c cs)
  from Cons.prems have h: "\<not> matchHere (c # cs)" using matchesAt_0 by blast
  from Cons.prems have "\<forall>k. \<not> matchesAt cs k" using matchesAt_Suc by blast
  then have "languageMatch cs = None" by (rule Cons.IH)
  with h show ?case by (simp only: languageMatch_Cons if_False)
qed

lemma languageMatch_least:
  "matchesAt cls k \<Longrightarrow> (\<forall>j<k. \<not> matchesAt cls j)
   \<Longrightarrow> languageMatch cls = Some (takeWhile isWordChar (drop (k + 9) cls))"
proof (induction cls arbitrary: k)
  case Nil
  then show ?case by (simp add: matchesAt_def matchHere_Nil)
next
  case (Cons c cs)
  show ?case
  proof (cases k)
    case 0
    with Cons.prems(1) have "matchHere (c # cs)" by (simp add: matchesAt_0)
    with 0 show ?thesis by (simp only: languageMatch_Cons if_True add_0)
  next
    case (Suc k')
    with Cons.prems(2) have "\<not> matchesAt (c # cs) 0" by blast
    then have h: "\<not> matchHere (c # cs)" by (simp add: matchesAt_0)
    from Suc Cons.prems(1) have m: "matchesAt cs k'" by (simp add: matchesAt_Suc)
    have "\<forall>j<k'. \<not> matchesAt cs j"
    proof (intro allI impI)
      fix j assume "j < k'"
      with Suc have "Suc j < k" by simp
      with Cons.prems(2) have "\<not> matchesAt (c # cs) (Suc j)" by blast
      then show "\<not> matchesAt cs j" by (simp add: matchesAt_Suc)
    qed
    from Cons.IH [OF m this] h Suc show ?thesis
      by (simp only: languageMatch_Cons if_False add_Suc drop_Suc_Cons)
  qed
qed

lemma matchesAt_length: "matchesAt cls k \<Longrightarrow> k + 9 < length cls"
proof -
  assume "matchesAt cls k"
  then have "drop 9 (drop k cls) \<noteq> []"
    unfolding matchesAt_def matchHere_def by (cases "drop 9 (drop k cls)") simp_all
  then have "drop (9 + k) cls \<noteq> []" by simp
  then show ?thesis by simp
qed


lemma static_PRE:
  "querySelector (Element ''PRE'' as kids) [''code''] \<noteq> None \<Longrightarrow>
   findIn (customHead @ betweenLists @ defaultTail) parent (Element ''PRE'' as kids)
     = Some (named ''codeBlocks'' codeBlocksRule)"
  by (simp add: rule_defs lower_literals)


lemma static_BR:
  "findIn (customHead @ betweenLists @ defaultTail) parent (Element ''BR'' as kids)
     = Some (named ''lineBreak'' (lineBreakRule baseService))"
proof -
  have "toLowerCase ''BR'' = ''br''" by code_simp
  then show ?thesis by (simp add: rule_defs lower_literals)
qed

lemma blankLineSource_output: "turndown theConverter blankLineSource = blankLineExample"
proof -
  have l: "\<not> isList (Element ''BR'' as kids)" "\<not> isList (Element ''P'' as kids)" for as kids
  proof -
    have "toLowerCase ''BR'' = ''br''" by code_simp
    then show "\<not> isList (Element ''BR'' as kids)" by (simp add: isList_def)
    show "\<not> isList (Element ''P'' as kids)" by (simp add: isList_def upper_literals)
  qed
  have t: "trim (''a'' @ [NL] @ '' '' @ [NL, NL] @ ''b'' @ [NL, NL]) = ''a'' @ [NL, SPC, NL, NL] @ ''b''"
    by code_simp
  have "processNode theConverter p (bodyOf blankLineSource)
          = ''a'' @ [NL] @ '' '' @ [NL, NL] @ ''b'' @ [NL, NL]" for p
    using l not_isList_bodyOf [of blankLineSource]
    unfolding theConverter_def bodyOf_def blankLineSource_def
    by (simp add: processNode_init static_BODY static_BR static_P named_def lineBreakRule_def
        paragraphRule_def baseService_def del: processNode.simps(3))
  with t show ?thesis
    by (simp add: turndown_def turndownWith_def blankLineExample_def)
qed


section \<open>The claims\<close>

subsection \<open>C1: the normalizer applied twice\<close>

text \<open>
  C1 says that \<open>postProcess\<close> is idempotent. On \<open>blankLineExample\<close>, which the converter
  produces for \<open>a<br> <p>b</p>\<close>, it is not: the run of three newlines is collapsed before
  the blanks of the middle line are stripped, so the first pass returns \<open>a\<close>, three
  newlines and \<open>b\<close>, and a second pass collapses them to two.
\<close>

theorem postProcess_twice_differs:
  "turndown theConverter blankLineSource = blankLineExample
   \<and> postProcess blankLineExample = ''a'' @ [NL, NL, NL] @ ''b''
   \<and> postProcess (postProcess blankLineExample) = ''a'' @ [NL, NL] @ ''b''
   \<and> postProcess (postProcess blankLineExample) \<noteq> postProcess blankLineExample"
proof -
  have "postProcess blankLineExample = ''a'' @ [NL, NL, NL] @ ''b''
   \<and> postProcess (postProcess blankLineExample) = ''a'' @ [NL, NL] @ ''b''
   \<and> postProcess (postProcess blankLineExample) \<noteq> postProcess blankLineExample"
    by code_simp
  with blankLineSource_output show ?thesis by blast
qed

subsection \<open>C2: priority of rules\<close>

text \<open>
  C2: \<open>addRule\<close> puts the new rule in front of the rule list; \<open>findMatchingRule\<close> returns
  the first rule of the list whose filter matches the node, and none exactly when no
  filter matches; the walker applies the replacement of that one rule and of no other;
  so a rule added later is the one found for every node its filter matches, whatever
  rules were there before.
\<close>

theorem registry_priority:
  "rules (addRule nm r this)
     = \<lparr>rule_filter = rule_filter r, replacement = replacement r, name = nm\<rparr> # rules this
   \<and> (findMatchingRule this parent n = None
        \<longleftrightarrow> (\<forall>q \<in> set (rules this). \<not> matchesFilter parent n (rule_filter q)))
   \<and> (\<forall>found. findMatchingRule this parent n = Some found \<longrightarrow>
        (\<exists>pre post. rules this = pre @ found # post
           \<and> matchesFilter parent n (rule_filter found)
           \<and> (\<forall>q \<in> set pre. \<not> matchesFilter parent n (rule_filter q))))
   \<and> (\<forall>found nm' as kids. n = Element nm' as kids \<and> findMatchingRule this parent n = Some found \<longrightarrow>
        processNode this parent n
          = replacement found (concat (map (processNode this (Some n)) kids)) parent n)
   \<and> (matchesFilter parent n (rule_filter r) \<longrightarrow>
        findMatchingRule (addRule nm r this) parent n
          = Some \<lparr>rule_filter = rule_filter r, replacement = replacement r, name = nm\<rparr>)"
proof -
  have a: "rules (addRule nm r this)
     = \<lparr>rule_filter = rule_filter r, replacement = replacement r, name = nm\<rparr> # rules this"
    by (simp add: addRule_def)
  have b: "findMatchingRule this parent n = None
        \<longleftrightarrow> (\<forall>q \<in> set (rules this). \<not> matchesFilter parent n (rule_filter q))"
    by (simp add: findMatchingRule_def findIn_None)
  have c: "\<forall>found. findMatchingRule this parent n = Some found \<longrightarrow>
        (\<exists>pre post. rules this = pre @ found # post
           \<and> matchesFilter parent n (rule_filter found)
           \<and> (\<forall>q \<in> set pre. \<not> matchesFilter parent n (rule_filter q)))"
    unfolding findMatchingRule_def using findIn_Some by blast
  have d: "\<forall>found nm' as kids. n = Element nm' as kids \<and> findMatchingRule this parent n = Some found \<longrightarrow>
        processNode this parent n
          = replacement found (concat (map (processNode this (Some n)) kids)) parent n"
    by (auto simp: childrenLoop_concat)
  have e: "matchesFilter parent n (rule_filter r) \<longrightarrow>
        findMatchingRule (addRule nm r this) parent n
          = Some \<lparr>rule_filter = rule_filter r, replacement = replacement r, name = nm\<rparr>"
    by (simp add: findMatchingRule_def addRule_def)
  from a b c d e show ?thesis by blast
qed

text \<open>
  Witness: in the converter the rule found for a paragraph is the default \<open>paragraph\<close>
  rule, which wraps the text in blank lines; once the caller's rule with the same filter
  is added, that one is found. No rule is found for \<open>divExample\<close>, so the \<open>paragraph\<close>
  rule does not match it.
\<close>

theorem registry_priority_witness:
  "matchesFilter None paragraphExample (rule_filter callerRule)
   \<and> findMatchingRule theConverter None paragraphExample = Some (named ''paragraph'' paragraphRule)
   \<and> matchesFilter None paragraphExample (rule_filter (named ''paragraph'' paragraphRule))
   \<and> processNode theConverter None paragraphExample = [NL, NL] @ ''t'' @ [NL, NL]
   \<and> map_option name (findMatchingRule (addRule ''mine'' callerRule theConverter) None paragraphExample)
       = Some ''mine''
   \<and> findMatchingRule theConverter None divExample = None
   \<and> \<not> matchesFilter None divExample (rule_filter (named ''paragraph'' paragraphRule))"
proof -
  have m: "matchesFilter None paragraphExample (rule_filter callerRule)"
    by (simp add: callerRule_def paragraphExample_def upper_literals lower_literals)
  have p: "findMatchingRule theConverter None paragraphExample = Some (named ''paragraph'' paragraphRule)"
    unfolding theConverter_def paragraphExample_def
    by (simp add: findMatchingRule_init static_P isList_def upper_literals)
  have h: "findMatchingRule theConverter None divExample = None"
    unfolding theConverter_def divExample_def
    by (simp add: findMatchingRule_init static_DIV isList_def upper_literals)
  have i: "named ''paragraph'' paragraphRule \<in> set (rules theConverter)"
    by (simp add: theConverter_def rules_init defaultTail_def)
  note T = registry_priority [of "''mine''" callerRule theConverter None paragraphExample]
  from T m
  have o: "findMatchingRule (addRule ''mine'' callerRule theConverter) None paragraphExample
          = Some \<lparr>rule_filter = rule_filter callerRule, replacement = replacement callerRule,
                  name = ''mine''\<rparr>"
    by blast
  from T p have f: "matchesFilter None paragraphExample (rule_filter (named ''paragraph'' paragraphRule))"
    by blast
  from T p have "processNode theConverter None paragraphExample
      = replacement (named ''paragraph'' paragraphRule)
          (concat (map (processNode theConverter (Some paragraphExample)) [Text ''t''])) None
          paragraphExample"
    unfolding paragraphExample_def by blast
  then have w: "processNode theConverter None paragraphExample = [NL, NL] @ ''t'' @ [NL, NL]"
    by (simp add: named_def paragraphRule_def)
  from registry_priority [of "''mine''" callerRule theConverter None divExample] h i
  have g: "\<not> matchesFilter None divExample (rule_filter (named ''paragraph'' paragraphRule))"
    by blast
  from m p f w o h g show ?thesis by simp
qed

subsection \<open>C3: nested lists\<close>

text \<open>
  C3 says that the list transform goes over the direct \<open>li\<close> children only and keeps a
  nested list out of the parent's items. \<open>convertList\<close> collects every \<open>li\<close> below the
  list: for \<open>nestedList\<close> it collects the outer and the inner item, though only the outer
  one is a child (which is what the default list rule would take), and the inner item
  \<open>b\<close> comes out as a second item of the outer list.
\<close>

theorem convertList_flattens_nested:
  "querySelectorAll nestedList [''li''] = [outerItem, innerItem]
   \<and> filter (\<lambda>child. nodeName child = ''LI'') (children nestedList) = [outerItem]
   \<and> convertList (processNode theConverter) nestedList = [NL, NL] @ ''- a'' @ [NL] @ ''- b'' @ [NL, NL]
   \<and> turndown theConverter [nestedList] = ''- a'' @ [NL] @ ''- b''"
proof -
  let ?I = "processNode innerConverter"
  have c: "filter (\<lambda>child. nodeName child = ''LI'') (children nestedList) = [outerItem]"
    by code_simp
  have u: "toLowerCase (nodeName nestedList) \<noteq> ''ol''" "isList nestedList"
    by (simp_all add: nestedList_def upper_literals isList_def)
  have e: "itemEntry (processNode (projr (init self))) False 0 outerItem = ''- a'' @ [NL]"
          "itemEntry (processNode (projr (init self))) False (Suc 0) innerItem = ''- b'' @ [NL]" for self
    by (simp_all add: itemEntry_plain [OF plain_items(5)] itemEntry_plain [OF plain_items(4)]
        trim_literals marker_def)
  have l: "convertList (processNode (projr (init self))) nestedList
             = [NL, NL] @ ''- a'' @ [NL] @ ''- b'' @ [NL, NL]" for self
    using u(1) by (simp add: convertList_def nestedList_items convertItems_closed enumerate_simps e)
  have t: "trim ([NL, NL] @ ''- a'' @ [NL] @ ''- b'' @ [NL, NL]) = ''- a'' @ [NL] @ ''- b''"
    by code_simp
  have "processNode theConverter p (bodyOf [nestedList]) = [NL, NL] @ ''- a'' @ [NL] @ ''- b'' @ [NL, NL]" for p
    using u(2) l [of "\<lambda>parent n. []"] not_isList_bodyOf [of "[nestedList]"]
    unfolding theConverter_def innerConverter_def bodyOf_def nestedList_def
    by (simp add: processNode_init static_BODY del: processNode.simps(3))
  with t have d: "turndown theConverter [nestedList] = ''- a'' @ [NL] @ ''- b''"
    by (simp add: turndown_def turndownWith_def)
  from l [of "processNode innerConverter"]
  have "convertList (processNode theConverter) nestedList = [NL, NL] @ ''- a'' @ [NL] @ ''- b'' @ [NL, NL]"
    by (simp add: theConverter_def)
  with nestedList_items c d show ?thesis by blast
qed

subsection \<open>C4: unsupported configuration values\<close>

text \<open>
  C4 says that the constructor fails with a \<open>ConfigurationError\<close> on an unsupported
  value. The constructor has no check: for \<open>setextOptions\<close> it returns a service.
\<close>

theorem constructor_rejects_counterexample:
  "\<not> (\<forall>self opts. \<not> supportedOptions opts \<longrightarrow>
         (\<exists>m. TurndownService self opts = Inl (ConfigurationError m)))"
proof
  assume "\<forall>self opts. \<not> supportedOptions opts \<longrightarrow>
         (\<exists>m. TurndownService self opts = Inl (ConfigurationError m))"
  moreover have "\<not> supportedOptions setextOptions"
    by (simp add: supportedOptions_def supportedValue_def setextOptions_def)
  ultimately obtain m where "TurndownService (\<lambda>p n. []) setextOptions = Inl (ConfigurationError m)"
    by blast
  then show False by (simp add: TurndownService_def)
qed

text \<open>
  C4 as amended: the constructor never fails. For every configuration it returns a
  service whose options are the given values, each one replaced by its default when it
  is missing or empty, and whose rules are the thirteen default rules, last added first.
\<close>

theorem constructor_accepts:
  "\<exists>this. TurndownService self opts = Inr this
     \<and> options this =
         \<lparr>headingStyle = orElse (headingStyle opts) ''atx'',
          codeBlockStyle = orElse (codeBlockStyle opts) ''fenced'',
          emDelimiter = orElse (emDelimiter opts) ''_'',
          strongDelimiter = orElse (strongDelimiter opts) ''**'',
          linkStyle = orElse (linkStyle opts) ''inlineLink'',
          br = orElse (br opts) [NL],
          hr = orElse (hr opts) ''---''\<rparr>
     \<and> map name (rules this) = rev [''paragraph'', ''heading'', ''strong'', ''emphasis'', ''link'',
          ''image'', ''code'', ''codeBlock'', ''lineBreak'', ''horizontalRule'', ''blockquote'',
          ''list'', ''listItem'']"
  by (simp add: TurndownService_def Let_def initDefaultRules_def addRule_def)

subsection \<open>C5: nodes without a rule\<close>

text \<open>
  C5: an element that no rule matches yields the outputs of its child nodes, joined in
  document order and nothing else; a text node yields its text unchanged; any other node
  yields the empty string.
\<close>

theorem processNode_passthrough:
  "(findMatchingRule this parent (Element nm as kids) = None \<longrightarrow>
      processNode this parent (Element nm as kids)
        = concat (map (processNode this (Some (Element nm as kids))) kids))
   \<and> processNode this parent (Text t) = t
   \<and> processNode this parent (Comment c) = []"
  by (simp add: childrenLoop_concat)

text \<open>Witness: \<open>divExample\<close> in the converter gives \<open>a*b\<close>.\<close>

theorem processNode_passthrough_witness:
  "findMatchingRule theConverter None divExample = None
   \<and> processNode theConverter None divExample = ''a*b''"
proof -
  let ?kids = "[Text ''a*'', Comment ''x'', Element ''SPAN'' [] [Text ''b'']]"
  have h: "findMatchingRule theConverter None (Element ''DIV'' [] ?kids) = None"
    unfolding theConverter_def
    by (simp add: findMatchingRule_init static_DIV isList_def upper_literals)
  have e: "concat (map (processNode theConverter (Some (Element ''DIV'' [] ?kids))) ?kids) = ''a*b''"
    unfolding theConverter_def
    by (simp add: processNode_init static_SPAN isList_def upper_literals del: processNode.simps(3))
  from processNode_passthrough [of theConverter None "''DIV''" "[]" ?kids] h e
  show ?thesis by (simp add: divExample_def)
qed

subsection \<open>C6: code blocks\<close>

text \<open>
  C6 says that the language tag is taken from a \<open>language-xxx\<close> class token and is empty
  otherwise. The transform searches the whole class value for \<open>language-\<close> followed by
  word characters: the class \<open>nolanguage-x\<close> has no such token and gives the tag \<open>x\<close>, and
  the token \<open>language-c++\<close> gives the tag \<open>c\<close>.
\<close>

theorem convertCodeBlock_token_counterexample:
  "querySelector substringPreExample [''code'']
     = Some (Element ''CODE'' [(''class'', ''nolanguage-x'')] [Text ''y''])
   \<and> classTokens ''nolanguage-x'' = [''nolanguage-x'']
   \<and> tokenLanguage ''nolanguage-x'' = []
   \<and> convertCodeBlock substringPreExample
       = [NL, NL] @ fence @ ''x'' @ [NL] @ ''y'' @ [NL] @ fence @ [NL, NL]
   \<and> convertCodeBlock substringPreExample
       \<noteq> [NL, NL] @ fence @ tokenLanguage ''nolanguage-x'' @ [NL] @ ''y'' @ [NL] @ fence @ [NL, NL]
   \<and> querySelector cppPreExample [''code'']
     = Some (Element ''CODE'' [(''class'', ''language-c++'')] [Text ''y''])
   \<and> tokenLanguage ''language-c++'' = ''c++''
   \<and> convertCodeBlock cppPreExample
       = [NL, NL] @ fence @ ''c'' @ [NL] @ ''y'' @ [NL] @ fence @ [NL, NL]
   \<and> convertCodeBlock cppPreExample
       \<noteq> [NL, NL] @ fence @ tokenLanguage ''language-c++'' @ [NL] @ ''y'' @ [NL] @ fence @ [NL, NL]"
  by code_simp

text \<open>
  C6 as amended: for a \<open>pre\<close> node with a \<open>code\<close> element below it, the code-block
  transform returns two newlines, the fence followed by the language, a newline, the text
  content of the \<open>code\<close> element as it is, a newline, the fence and two newlines. The
  language is read from the class value of the \<open>code\<close> element (empty when there is no
  class): it is the longest run of word characters after the leftmost place where
  \<open>language-\<close> is followed by a word character, and it is empty when there is no such
  place; so a class that is \<open>language-\<close> and a word gives that word. The children's output
  is not used, and the converter applies this transform to every such node named \<open>PRE\<close>.
\<close>

theorem convertCodeBlock_fenced:
  "querySelector preNode [''code''] = Some codeNode \<Longrightarrow>
     (\<exists>language.
        convertCodeBlock preNode
          = [NL, NL] @ fence @ language @ [NL] @ textContent codeNode @ [NL] @ fence @ [NL, NL]
        \<and> (\<forall>k. matchesAt (orElse (getAttribute codeNode ''class'') []) k
                \<and> (\<forall>j<k. \<not> matchesAt (orElse (getAttribute codeNode ''class'') []) j)
              \<longrightarrow> language = takeWhile isWordChar (drop (k + 9) (orElse (getAttribute codeNode ''class'') [])))
        \<and> ((\<forall>k. \<not> matchesAt (orElse (getAttribute codeNode ''class'') []) k) \<longrightarrow> language = [])
        \<and> (\<forall>w. getAttribute codeNode ''class'' = Some (''language-'' @ w)
                \<and> w \<noteq> [] \<and> (\<forall>c \<in> set w. isWordChar c)
              \<longrightarrow> language = w))
     \<and> replacement codeBlocksRule content parent preNode = convertCodeBlock preNode
     \<and> (nodeName preNode = ''PRE'' \<longrightarrow> processNode theConverter parent preNode = convertCodeBlock preNode)"
proof -
  assume q: "querySelector preNode [''code''] = Some codeNode"
  let ?cls = "orElse (getAttribute codeNode ''class'') []"
  let ?language = "case languageMatch ?cls of Some l \<Rightarrow> l | None \<Rightarrow> []"
  have a: "convertCodeBlock preNode
          = [NL, NL] @ fence @ ?language @ [NL] @ textContent codeNode @ [NL] @ fence @ [NL, NL]"
    using q by (simp add: convertCodeBlock_def Let_def)
  have b: "\<forall>k. matchesAt ?cls k \<and> (\<forall>j<k. \<not> matchesAt ?cls j)
              \<longrightarrow> ?language = takeWhile isWordChar (drop (k + 9) ?cls)"
  proof (intro allI impI, elim conjE)
    fix k assume "matchesAt ?cls k" "\<forall>j<k. \<not> matchesAt ?cls j"
    then have "languageMatch ?cls = Some (takeWhile isWordChar (drop (k + 9) ?cls))"
      by (rule languageMatch_least)
    then show "?language = takeWhile isWordChar (drop (k + 9) ?cls)" by (simp only: option.case)
  qed
  have c: "(\<forall>k. \<not> matchesAt ?cls k) \<longrightarrow> ?language = []"
  proof
    assume "\<forall>k. \<not> matchesAt ?cls k"
    then have "languageMatch ?cls = None" by (rule languageMatch_none)
    then show "?language = []" by (simp only: option.case)
  qed
  have d: "\<forall>w. getAttribute codeNode ''class'' = Some (''language-'' @ w)
                \<and> w \<noteq> [] \<and> (\<forall>c \<in> set w. isWordChar c)
              \<longrightarrow> ?language = w"
  proof (intro allI impI, elim conjE)
    fix w
    assume g: "getAttribute codeNode ''class'' = Some (''language-'' @ w)"
      and h: "w \<noteq> []" "\<forall>c \<in> set w. isWordChar c"
    from g have "?cls = ''language-'' @ w @ []" by (simp add: orElse_def)
    moreover have "languageMatch (''language-'' @ w @ []) = Some w"
      using h by (intro languageMatch_here) simp_all
    ultimately show "?language = w" by (simp only: option.case)
  qed
  have e: "replacement codeBlocksRule content parent preNode = convertCodeBlock preNode"
    by (simp add: codeBlocksRule_def)
  have f: "nodeName preNode = ''PRE'' \<longrightarrow> processNode theConverter parent preNode = convertCodeBlock preNode"
  proof
    assume n: "nodeName preNode = ''PRE''"
    from q obtain as kids where p: "preNode = Element ''PRE'' as kids"
      using n by (cases preNode) (simp_all add: querySelector_def querySelectorAll_def)
    have "\<not> isList (Element ''PRE'' as kids)" by (simp add: isList_def lower_literals)
    with q p show "processNode theConverter parent preNode = convertCodeBlock preNode"
      unfolding theConverter_def
      by (simp add: processNode_init static_PRE named_def codeBlocksRule_def del: processNode.simps(3))
  qed
  have "\<exists>language.
        convertCodeBlock preNode
          = [NL, NL] @ fence @ language @ [NL] @ textContent codeNode @ [NL] @ fence @ [NL, NL]
        \<and> (\<forall>k. matchesAt ?cls k \<and> (\<forall>j<k. \<not> matchesAt ?cls j)
              \<longrightarrow> language = takeWhile isWordChar (drop (k + 9) ?cls))
        \<and> ((\<forall>k. \<not> matchesAt ?cls k) \<longrightarrow> language = [])
        \<and> (\<forall>w. getAttribute codeNode ''class'' = Some (''language-'' @ w)
                \<and> w \<noteq> [] \<and> (\<forall>c \<in> set w. isWordChar c)
              \<longrightarrow> language = w)"
    by (rule exI [of _ ?language]) (intro conjI a b c d)
  with e f show ?thesis by (intro conjI)
qed

text \<open>
  Witness: \<open>preExample\<close> gives a block tagged \<open>js\<close> that holds \<open>1 < 2\<close>; the class
  \<open>language- language-py\<close> gives the tag \<open>py\<close> and the class \<open>language-js\<close> the tag \<open>js\<close>; a
  \<open>code\<close> element without a class, or with the class \<open>hljs\<close>, gives a block without a tag,
  and the markup inside it contributes its text only.
\<close>

theorem convertCodeBlock_fenced_witness:
  "querySelector preExample [''code''] = Some (Element ''CODE'' [(''class'', ''hljs language-js'')] [Text ''1 < 2''])
   \<and> matchesAt ''hljs language-js'' 5
   \<and> processNode theConverter None preExample
       = [NL, NL] @ fence @ ''js'' @ [NL] @ ''1 < 2'' @ [NL] @ fence @ [NL, NL]
   \<and> querySelector secondPreExample [''code'']
       = Some (Element ''CODE'' [(''class'', ''language- language-py'')] [Text ''z''])
   \<and> matchesAt ''language- language-py'' 10
   \<and> convertCodeBlock secondPreExample = [NL, NL] @ fence @ ''py'' @ [NL] @ ''z'' @ [NL] @ fence @ [NL, NL]
   \<and> querySelector plainPreExample [''code''] = Some (Element ''CODE'' [] [Text ''a*'', Element ''B'' [] [Text ''b'']])
   \<and> convertCodeBlock plainPreExample = [NL, NL] @ fence @ [NL] @ ''a*b'' @ [NL] @ fence @ [NL, NL]
   \<and> querySelector otherPreExample [''code''] = Some (Element ''CODE'' [(''class'', ''hljs'')] [])
   \<and> convertCodeBlock otherPreExample = [NL, NL] @ fence @ [NL] @ [NL] @ fence @ [NL, NL]
   \<and> querySelector tokenPreExample [''code''] = Some (Element ''CODE'' [(''class'', ''language-js'')] [])
   \<and> convertCodeBlock tokenPreExample = [NL, NL] @ fence @ ''js'' @ [NL] @ [NL] @ fence @ [NL, NL]"
proof -
  let ?code = "Element ''CODE'' [(''class'', ''hljs language-js'')] [Text ''1 < 2'']"
  let ?second = "Element ''CODE'' [(''class'', ''language- language-py'')] [Text ''z'']"
  let ?plain = "Element ''CODE'' [] [Text ''a*'', Element ''B'' [] [Text ''b'']]"
  let ?other = "Element ''CODE'' [(''class'', ''hljs'')] []"
  let ?token = "Element ''CODE'' [(''class'', ''language-js'')] []"
  have q1: "querySelector preExample [''code''] = Some ?code" by code_simp
  have c1: "orElse (getAttribute ?code ''class'') [] = ''hljs language-js''" by (simp add: orElse_def)
  have m1: "matchesAt ''hljs language-js'' 5" by code_simp
  have "\<forall>j \<in> set [0..<5]. \<not> matchesAt ''hljs language-js'' j" by code_simp
  then have l1: "\<forall>j<5. \<not> matchesAt ''hljs language-js'' j" by simp
  have w1: "takeWhile isWordChar (drop (5 + 9) ''hljs language-js'') = ''js''" by code_simp
  have n1: "nodeName preExample = ''PRE''" by (simp add: preExample_def)
  from convertCodeBlock_fenced [OF q1, of "[]" None] obtain language where
    x1: "convertCodeBlock preExample
           = [NL, NL] @ fence @ language @ [NL] @ textContent ?code @ [NL] @ fence @ [NL, NL]"
    and y1: "\<forall>k. matchesAt (orElse (getAttribute ?code ''class'') []) k
                \<and> (\<forall>j<k. \<not> matchesAt (orElse (getAttribute ?code ''class'') []) j)
              \<longrightarrow> language = takeWhile isWordChar (drop (k + 9) (orElse (getAttribute ?code ''class'') []))"
    and z1: "nodeName preExample = ''PRE'' \<longrightarrow> processNode theConverter None preExample = convertCodeBlock preExample"
    by blast
  from y1 c1 m1 l1 w1 have "language = ''js''" by metis
  with x1 z1 n1 have a: "processNode theConverter None preExample
       = [NL, NL] @ fence @ ''js'' @ [NL] @ ''1 < 2'' @ [NL] @ fence @ [NL, NL]"
    by simp
  have q2: "querySelector secondPreExample [''code''] = Some ?second" by code_simp
  have c2: "orElse (getAttribute ?second ''class'') [] = ''language- language-py''" by (simp add: orElse_def)
  have m2: "matchesAt ''language- language-py'' 10" by code_simp
  have "\<forall>j \<in> set [0..<10]. \<not> matchesAt ''language- language-py'' j" by code_simp
  then have l2: "\<forall>j<10. \<not> matchesAt ''language- language-py'' j" by simp
  have w2: "takeWhile isWordChar (drop (10 + 9) ''language- language-py'') = ''py''" by code_simp
  from convertCodeBlock_fenced [OF q2, of "[]" None] obtain language2 where
    x2: "convertCodeBlock secondPreExample
           = [NL, NL] @ fence @ language2 @ [NL] @ textContent ?second @ [NL] @ fence @ [NL, NL]"
    and y2: "\<forall>k. matchesAt (orElse (getAttribute ?second ''class'') []) k
                \<and> (\<forall>j<k. \<not> matchesAt (orElse (getAttribute ?second ''class'') []) j)
              \<longrightarrow> language2 = takeWhile isWordChar (drop (k + 9) (orElse (getAttribute ?second ''class'') []))"
    by blast
  from y2 c2 m2 l2 w2 have "language2 = ''py''" by metis
  with x2 have b: "convertCodeBlock secondPreExample
       = [NL, NL] @ fence @ ''py'' @ [NL] @ ''z'' @ [NL] @ fence @ [NL, NL]"
    by simp
  have q3: "querySelector plainPreExample [''code''] = Some ?plain" by code_simp
  have c3: "orElse (getAttribute ?plain ''class'') [] = []" by (simp add: orElse_def)
  have n3: "\<forall>k. \<not> matchesAt [] k" by (auto dest: matchesAt_length)
  from convertCodeBlock_fenced [OF q3, of "[]" None] obtain language3 where
    x3: "convertCodeBlock plainPreExample
           = [NL, NL] @ fence @ language3 @ [NL] @ textContent ?plain @ [NL] @ fence @ [NL, NL]"
    and y3: "(\<forall>k. \<not> matchesAt (orElse (getAttribute ?plain ''class'') []) k) \<longrightarrow> language3 = []"
    by blast
  from y3 c3 n3 have "language3 = []" by simp
  with x3 have c: "convertCodeBlock plainPreExample
       = [NL, NL] @ fence @ [NL] @ ''a*b'' @ [NL] @ fence @ [NL, NL]"
    by simp
  have q4: "querySelector otherPreExample [''code''] = Some ?other" by code_simp
  have c4: "orElse (getAttribute ?other ''class'') [] = ''hljs''" by (simp add: orElse_def)
  have n4: "\<forall>k. \<not> matchesAt ''hljs'' k" by (auto dest: matchesAt_length)
  from convertCodeBlock_fenced [OF q4, of "[]" None] obtain language4 where
    x4: "convertCodeBlock otherPreExample
           = [NL, NL] @ fence @ language4 @ [NL] @ textContent ?other @ [NL] @ fence @ [NL, NL]"
    and y4: "(\<forall>k. \<not> matchesAt (orElse (getAttribute ?other ''class'') []) k) \<longrightarrow> language4 = []"
    by blast
  from y4 c4 n4 have "language4 = []" by simp
  with x4 have d: "convertCodeBlock otherPreExample
       = [NL, NL] @ fence @ [NL] @ [NL] @ fence @ [NL, NL]"
    by simp
  have q5: "querySelector tokenPreExample [''code''] = Some ?token" by code_simp
  have g5: "getAttribute ?token ''class'' = Some (''language-'' @ ''js'')" by simp
  have w5: "\<forall>c \<in> set ''js''. isWordChar c" by code_simp
  from convertCodeBlock_fenced [OF q5, of "[]" None] obtain language5 where
    x5: "convertCodeBlock tokenPreExample
           = [NL, NL] @ fence @ language5 @ [NL] @ textContent ?token @ [NL] @ fence @ [NL, NL]"
    and y5: "\<forall>w. getAttribute ?token ''class'' = Some (''language-'' @ w)
                \<and> w \<noteq> [] \<and> (\<forall>c \<in> set w. isWordChar c)
              \<longrightarrow> language5 = w"
    by blast
  from y5 g5 w5 have "language5 = ''js''" by (metis list.distinct(1))
  with x5 have e: "convertCodeBlock tokenPreExample
       = [NL, NL] @ fence @ ''js'' @ [NL] @ [NL] @ fence @ [NL, NL]"
    by simp
  from q1 m1 a q2 m2 b q3 c q4 d q5 e show ?thesis by blast
qed

subsection \<open>C7: table cells\<close>

text \<open>
  C7: the table transform writes one line for each row, made of the row's cell texts:
  the text content of each cell, trimmed, with every pipe replaced by a backslash and a
  pipe. So in a written cell every pipe stands right after a backslash.
\<close>

theorem convertTable_cells:
  "convertTable tableNode =
     (case querySelectorAll tableNode [''tr''] of
        [] \<Rightarrow> []
      | firstRow # rest \<Rightarrow>
          [NL, NL] @ tableLine (rowCells firstRow)
          @ (if querySelector tableNode [''thead''] \<noteq> None \<or> querySelector firstRow [''th''] \<noteq> None
             then tableLine (map (\<lambda>_. ''---'') (rowCells firstRow)) else [])
          @ concat (map (\<lambda>row. tableLine (rowCells row)) rest) @ [NL])
   \<and> escapePipes [] = []
   \<and> escapePipes (c # s) = (if c = CHR ''|'' then [BSL, CHR ''|''] else [c]) @ escapePipes s
   \<and> (\<forall>i. i < length (escapePipes s) \<and> escapePipes s ! i = CHR ''|''
          \<longrightarrow> 0 < i \<and> escapePipes s ! (i - 1) = BSL)"
proof -
  have a: "convertTable tableNode =
     (case querySelectorAll tableNode [''tr''] of
        [] \<Rightarrow> []
      | firstRow # rest \<Rightarrow>
          [NL, NL] @ tableLine (rowCells firstRow)
          @ (if querySelector tableNode [''thead''] \<noteq> None \<or> querySelector firstRow [''th''] \<noteq> None
             then tableLine (map (\<lambda>_. ''---'') (rowCells firstRow)) else [])
          @ concat (map (\<lambda>row. tableLine (rowCells row)) rest) @ [NL])"
    by (simp add: convertTable_def tableRows_closed tableRows_rest split: list.splits)
  have b: "escapePipes [] = []" by (simp add: escapePipes_def)
  from a b escapePipes_Cons [of c s] escapePipes_guarded [of _ s] show ?thesis by blast
qed

text \<open>Witness: the cell \<open>a|b\<close> of \<open>tableExample\<close> is written \<open>a\|b\<close>.\<close>

theorem convertTable_cells_witness:
  "2 < length (escapePipes ''a|b'') \<and> escapePipes ''a|b'' ! 2 = CHR ''|''
   \<and> escapePipes ''a|b'' ! 1 = BSL
   \<and> rowCells (Element ''TR'' [] [Element ''TD'' [] [Text '' a|b ''], Element ''TD'' [] [Text ''c'']])
       = [''a'' @ [BSL] @ ''|b'', ''c'']
   \<and> convertTable tableExample = [NL, NL] @ ''| a'' @ [BSL] @ ''|b | c |'' @ [NL, NL]"
proof -
  let ?row = "Element ''TR'' [] [Element ''TD'' [] [Text '' a|b ''], Element ''TD'' [] [Text ''c'']]"
  have l: "2 < length (escapePipes ''a|b'')" and p: "escapePipes ''a|b'' ! 2 = CHR ''|''"
    by code_simp+
  have q: "querySelectorAll tableExample [''tr''] = [?row]" by code_simp
  have h: "querySelector tableExample [''thead''] = None" "querySelector ?row [''th''] = None"
    by code_simp+
  have r: "rowCells ?row = [''a'' @ [BSL] @ ''|b'', ''c'']" by code_simp
  have t: "tableLine [''a'' @ [BSL] @ ''|b'', ''c''] = ''| a'' @ [BSL] @ ''|b | c |'' @ [NL]" by code_simp
  note T = convertTable_cells [of tableExample "CHR ''a''" "''a|b''"]
  from T l p have b: "escapePipes ''a|b'' ! 1 = BSL" by fastforce
  from T q h r t have "convertTable tableExample = [NL, NL] @ ''| a'' @ [BSL] @ ''|b | c |'' @ [NL, NL]"
    by simp
  with l p b r show ?thesis by blast
qed

subsection \<open>C8: numbering of ordered lists\<close>

text \<open>
  C8 says that ordered items are numbered sequentially from 1. For \<open>gapList\<close>, whose
  second item is empty, the transform writes the items \<open>1. x\<close> and \<open>3. y\<close>: the empty item
  is skipped and still counted.
\<close>

theorem list_numbering_counterexample:
  "convertList (processNode theConverter) gapList = [NL, NL] @ ''1. x'' @ [NL] @ ''3. y'' @ [NL, NL]
   \<and> convertList (processNode theConverter) gapList \<noteq> numberedFromOne [''x'', ''y'']"
proof -
  have "numberedFromOne [''x'', ''y''] = [NL, NL] @ ''1. x'' @ [NL] @ ''2. y'' @ [NL, NL]"
    by code_simp
  then show ?thesis
    unfolding theConverter_def gapList_output by simp
qed

text \<open>
  C8 as amended: the attributes of the list element (a \<open>start\<close> attribute among them) do
  not change the output. When the list is ordered and none of the collected items is
  blank, the items are numbered 1, 2, 3, ... in order. When the list is not ordered, every
  item that is not blank starts with \<open>- \<close>. The default list rule numbers an item by its
  index plus one, or marks it with a dash, in the same way.
\<close>

theorem list_numbering:
  "convertList self (Element nm as kids) = convertList self (Element nm as' kids)
   \<and> (toLowerCase nm = ''ol''
        \<and> querySelectorAll (Element nm as kids) [''li''] \<noteq> []
        \<and> (\<forall>item \<in> set (querySelectorAll (Element nm as kids) [''li'']).
              trim (getTextContent self item) \<noteq> [])
       \<longrightarrow> convertList self (Element nm as kids)
             = numberedFromOne (map (\<lambda>item. indented True (trim (getTextContent self item)))
                                    (querySelectorAll (Element nm as kids) [''li''])))
   \<and> (toLowerCase nm \<noteq> ''ol''
       \<longrightarrow> convertList self (Element nm as kids)
             = (if querySelectorAll (Element nm as kids) [''li''] = [] then []
                else [NL, NL]
                     @ concat (map (\<lambda>item. let content = trim (getTextContent self item)
                                            in if content = [] then []
                                               else ''- '' @ indented False content @ [NL])
                                 (querySelectorAll (Element nm as kids) [''li'']))
                     @ [NL]))
   \<and> replacement (listRule self) content parent n
       = [NL, NL]
         @ concat (map (\<lambda>(k, item). let text = trim (self (Some n) item)
                                     in if text = [] then [] else marker (nodeName n = ''OL'') k @ text @ [NL])
                     (enumerate 0 (filter (\<lambda>child. nodeName child = ''LI'') (children n))))
         @ [NL]"
proof -
  have a: "convertList self (Element nm as kids) = convertList self (Element nm as' kids)"
    by (simp add: convertList_def querySelectorAll_def)
  have b: "toLowerCase nm = ''ol''
        \<and> querySelectorAll (Element nm as kids) [''li''] \<noteq> []
        \<and> (\<forall>item \<in> set (querySelectorAll (Element nm as kids) [''li'']).
              trim (getTextContent self item) \<noteq> [])
       \<longrightarrow> convertList self (Element nm as kids)
             = numberedFromOne (map (\<lambda>item. indented True (trim (getTextContent self item)))
                                    (querySelectorAll (Element nm as kids) [''li'']))"
    using ordered_entries [of "querySelectorAll (Element nm as kids) [''li'']" self 0]
    by (simp add: convertList_def convertItems_closed numberedFromOne_def)
  have c: "toLowerCase nm \<noteq> ''ol''
       \<longrightarrow> convertList self (Element nm as kids)
             = (if querySelectorAll (Element nm as kids) [''li''] = [] then []
                else [NL, NL]
                     @ concat (map (\<lambda>item. let content = trim (getTextContent self item)
                                            in if content = [] then []
                                               else ''- '' @ indented False content @ [NL])
                                 (querySelectorAll (Element nm as kids) [''li'']))
                     @ [NL])"
    using unordered_entries [of self 0 "querySelectorAll (Element nm as kids) [''li'']"]
    by (simp add: convertList_def convertItems_closed)
  have d: "replacement (listRule self) content parent n
       = [NL, NL]
         @ concat (map (\<lambda>(k, item). let text = trim (self (Some n) item)
                                     in if text = [] then [] else marker (nodeName n = ''OL'') k @ text @ [NL])
                     (enumerate 0 (filter (\<lambda>child. nodeName child = ''LI'') (children n))))
         @ [NL]"
    by (simp add: listRule_def listItems_closed Let_def)
  from a b c d show ?thesis by blast
qed

text \<open>
  Witness: \<open>startList\<close> gives the items \<open>1. x\<close> and \<open>2. y\<close>; an unordered list of an
  empty item and the item \<open>y\<close> gives \<open>- y\<close>.
\<close>

theorem list_numbering_witness:
  "toLowerCase ''OL'' = ''ol''
   \<and> querySelectorAll startList [''li''] = [Element ''LI'' [] [Text ''x''], lastItem]
   \<and> trim (getTextContent (processNode theConverter) (Element ''LI'' [] [Text ''x''])) = ''x''
   \<and> trim (getTextContent (processNode theConverter) lastItem) = ''y''
   \<and> convertList (processNode theConverter) startList
       = [NL, NL] @ ''1. x'' @ [NL] @ ''2. y'' @ [NL, NL]
   \<and> toLowerCase ''UL'' \<noteq> ''ol''
   \<and> convertList (processNode theConverter) (Element ''UL'' [] [emptyItem, lastItem])
       = [NL, NL] @ ''- y'' @ [NL, NL]"
proof -
  let ?W = "processNode theConverter"
  let ?kids = "[Element ''LI'' [] [Text ''x''], Element ''LI'' [] [Text ''y'']]"
  have x: "trim (getTextContent ?W (Element ''LI'' [] [Text ''x''])) = ''x''"
   and y: "trim (getTextContent ?W lastItem) = ''y''"
   and e: "trim (getTextContent ?W emptyItem) = []"
    unfolding theConverter_def by (simp_all add: plain_items trim_literals)
  have i: "querySelectorAll (Element ''OL'' [(''start'', ''5'')] ?kids) [''li'']
             = [Element ''LI'' [] [Text ''x''], lastItem]"
    using startList_items by (simp add: startList_def)
  have n: "numberedFromOne [indented True ''x'', indented True ''y'']
             = [NL, NL] @ ''1. x'' @ [NL] @ ''2. y'' @ [NL, NL]"
    by code_simp
  from list_numbering [of ?W "''OL''" "[(''start'', ''5'')]" ?kids "[]" "[]" None startList,
         THEN conjunct2, THEN conjunct1] x y i n
  have a: "convertList ?W (Element ''OL'' [(''start'', ''5'')] ?kids)
          = [NL, NL] @ ''1. x'' @ [NL] @ ''2. y'' @ [NL, NL]"
    by (simp add: upper_literals)
  have u: "toLowerCase ''UL'' \<noteq> ''ol''" by (simp add: upper_literals)
  have j: "querySelectorAll (Element ''UL'' [] [emptyItem, lastItem]) [''li''] = [emptyItem, lastItem]"
    by code_simp
  have d: "indented False ''y'' = ''y''" by code_simp
  from list_numbering [of ?W "''UL''" "[]" "[emptyItem, lastItem]" "[]" "[]" None startList,
         THEN conjunct2, THEN conjunct2, THEN conjunct1] u j e y d
  have b: "convertList ?W (Element ''UL'' [] [emptyItem, lastItem]) = [NL, NL] @ ''- y'' @ [NL, NL]"
    by simp
  from a b u x y startList_items show ?thesis by (simp add: startList_def upper_literals)
qed

subsection \<open>C9: input that is not a non-empty string\<close>

text \<open>
  C9: when the argument of \<open>convert\<close> is not a string, or is the empty string, the call
  fails with the wrapped error \<open>Invalid HTML input\<close>, whatever the parser and the
  converter are: nothing is parsed, walked or normalized, and there is no result.
\<close>

theorem convert_rejects:
  "\<not> isString html \<or> html = JString [] \<Longrightarrow>
     convert converter parseHTML now html = Inl (Error (failurePrefix @ ''Invalid HTML input''))"
  by (cases html) (auto simp: convert_def convertBody_def)

text \<open>Witness: the number 42 and the empty string.\<close>

theorem convert_rejects_witness:
  "convert theConverter (\<lambda>s. [Text s]) ''now'' (JNumber 42)
     = Inl (Error (failurePrefix @ ''Invalid HTML input''))
   \<and> convert theConverter (\<lambda>s. [Text s]) ''now'' (JString [])
     = Inl (Error (failurePrefix @ ''Invalid HTML input''))"
  using convert_rejects [of "JNumber 42" theConverter "\<lambda>s. [Text s]" "''now''"]
        convert_rejects [of "JString []" theConverter "\<lambda>s. [Text s]" "''now''"]
  by simp

subsection \<open>C10: blank items are skipped and counted\<close>

text \<open>
  C10: the output of the list transform is the entries of the collected items, each taken
  with its index among all of them. The entry of an item whose text is white space only
  is empty; the entry of any other item of an ordered list starts with its index plus one.
\<close>

theorem convertList_entries:
  "convertList self listNode =
     (let isOrdered = (toLowerCase (nodeName listNode) = ''ol'');
          items = querySelectorAll listNode [''li'']
      in if items = [] then []
         else [NL, NL]
              @ concat (map (\<lambda>(index, item). itemEntry self isOrdered index item) (enumerate 0 items))
              @ [NL])
   \<and> ((\<forall>c \<in> set (getTextContent self item). isWhiteSpace c) \<longrightarrow>
         itemEntry self isOrdered index item = [])
   \<and> (\<not> (\<forall>c \<in> set (getTextContent self item). isWhiteSpace c) \<longrightarrow>
         itemEntry self True index item
           = decimal (index + 1) @ ''. '' @ indented True (trim (getTextContent self item)) @ [NL])"
proof -
  have a: "convertList self listNode =
     (let isOrdered = (toLowerCase (nodeName listNode) = ''ol'');
          items = querySelectorAll listNode [''li'']
      in if items = [] then []
         else [NL, NL]
              @ concat (map (\<lambda>(index, item). itemEntry self isOrdered index item) (enumerate 0 items))
              @ [NL])"
    by (simp add: convertList_def Let_def convertItems_closed)
  have b: "(\<forall>c \<in> set (getTextContent self item). isWhiteSpace c) \<longrightarrow>
         itemEntry self isOrdered index item = []"
    by (simp add: itemEntry_def trim_Nil_iff)
  have c: "\<not> (\<forall>c \<in> set (getTextContent self item). isWhiteSpace c) \<longrightarrow>
         itemEntry self True index item
           = decimal (index + 1) @ ''. '' @ indented True (trim (getTextContent self item)) @ [NL]"
    by (simp add: itemEntry_def trim_Nil_iff marker_def)
  from a b c show ?thesis by blast
qed

text \<open>Witness: \<open>gapList\<close> gives \<open>1. x\<close> and \<open>3. y\<close>.\<close>

theorem convertList_entries_witness:
  "convertList (processNode theConverter) gapList = [NL, NL] @ ''1. x'' @ [NL] @ ''3. y'' @ [NL, NL]
   \<and> getTextContent (processNode theConverter) emptyItem = []
   \<and> itemEntry (processNode theConverter) True 1 emptyItem = []
   \<and> getTextContent (processNode theConverter) lastItem = ''y''
   \<and> itemEntry (processNode theConverter) True 2 lastItem = ''3. y'' @ [NL]"
proof -
  let ?W = "processNode theConverter"
  have e: "getTextContent ?W emptyItem = []" and y: "getTextContent ?W lastItem = ''y''"
    unfolding theConverter_def by (rule plain_items)+
  have x: "itemEntry ?W True 0 (Element ''LI'' [] [Text ''x'']) = ''1. x'' @ [NL]"
    unfolding theConverter_def by (rule gapList_entries)
  have w: "\<not> isWhiteSpace (CHR ''y'')" by code_simp
  have t: "indented True (trim ''y'') = ''y''" by code_simp
  have d: "decimal (2 + 1) = ''3''" by code_simp
  have o: "toLowerCase (nodeName gapList) = ''ol''" by (simp add: gapList_def upper_literals)
  from convertList_entries [of ?W gapList emptyItem True 1] e
  have 1: "itemEntry ?W True 1 emptyItem = []" by simp
  from convertList_entries [of ?W gapList lastItem True 2] y w t d
  have 2: "itemEntry ?W True 2 lastItem = ''3. y'' @ [NL]" by simp
  from convertList_entries [of ?W gapList emptyItem True 1] o x 1 2
  have l: "convertList ?W gapList = [NL, NL] @ ''1. x'' @ [NL] @ ''3. y'' @ [NL, NL]"
    by (simp add: gapList_items enumerate_simps numeral_2_eq_2)
  from e y l 1 2 show ?thesis by blast
qed

end
